theory Spec2Isabelle
  imports Main "HOL-Library.Word" "HOL-Library.Signed_Division"
begin

unbundle bit_operations_syntax

section \<open>The nt37290 panel driver: data model\<close>

text \<open>
  The development embeds the refresh-rate and idle-mode logic of the BOE nt37290 panel
  driver (\<^verbatim>\<open>src/unnamed/part_000\<close>). C \<^verbatim>\<open>int\<close> and \<^verbatim>\<open>s64\<close> values are
  HOL integers (the driver only compares and copies them, it does no arithmetic that could
  wrap); \<^verbatim>\<open>u8\<close>, \<^verbatim>\<open>u16\<close>, \<^verbatim>\<open>u32\<close>, \<^verbatim>\<open>unsigned int\<close> and
  \<^verbatim>\<open>unsigned long\<close> values are machine words, and every conversion between the two
  is written out (\<open>word_of_int\<close>, \<open>sint\<close>).
\<close>

type_synonym u8 = "8 word"
type_synonym u16 = "16 word"
type_synonym u32 = "32 word"
type_synonym ulong = "64 word"

text \<open>A DSI command is the byte sequence handed to the transport.\<close>

type_synonym dsi_cmd = "u8 list"

text \<open>\<^verbatim>\<open>NT37290_TE2_MIN_RATE\<close>, \<^verbatim>\<open>NT37290_TE2_CHANGEABLE\<close>, \<^verbatim>\<open>NT37290_TE2_FIXED\<close> (lines 21-23).\<close>

definition NT37290_TE2_MIN_RATE :: int where
  "NT37290_TE2_MIN_RATE = 30"

definition NT37290_TE2_CHANGEABLE :: u8 where
  "NT37290_TE2_CHANGEABLE = 0x02"

definition NT37290_TE2_FIXED :: u8 where
  "NT37290_TE2_FIXED = 0x22"

text \<open>\<^verbatim>\<open>enum nt37290_panel_feature\<close> (lines 34-38): bit numbers in the feature bitmaps.\<close>

definition G10_FEAT_EARLY_EXIT :: nat where
  "G10_FEAT_EARLY_EXIT = 0"

definition G10_FEAT_FRAME_AUTO :: nat where
  "G10_FEAT_FRAME_AUTO = 1"

definition G10_FEAT_MAX :: nat where
  "G10_FEAT_MAX = 2"

text \<open>
  Modelled from the spec: \<^verbatim>\<open>enum exynos_panel_idle_mode\<close> is declared in
  \<^verbatim>\<open>panel-samsung-drv.h\<close>, which is not among the source files. The driver uses its
  three values: the mode does not support idling, idles on inactivity, or idles while
  self-refresh is active.
\<close>

datatype exynos_panel_idle_mode =
  IDLE_MODE_UNSUPPORTED | IDLE_MODE_ON_INACTIVITY | IDLE_MODE_ON_SELF_REFRESH

text \<open>
  Modelled from the spec: \<^verbatim>\<open>struct exynos_panel_te2_timing\<close> and
  \<^verbatim>\<open>struct exynos_panel_mode\<close> are declared in \<^verbatim>\<open>panel-samsung-drv.h\<close>. Of a
  mode the driver reads \<^verbatim>\<open>drm_mode_vrefresh(&pmode->mode)\<close> (an \<^verbatim>\<open>int\<close>, kept
  here as the field \<open>mode_vrefresh\<close>), \<^verbatim>\<open>exynos_mode.is_lp_mode\<close> and
  \<^verbatim>\<open>idle_mode\<close>.
\<close>

record exynos_panel_te2_timing =
  rising_edge :: u16
  falling_edge :: u16

record exynos_panel_mode =
  mode_vrefresh :: int
  is_lp_mode :: bool
  idle_mode :: exynos_panel_idle_mode

text \<open>The two \<^verbatim>\<open>dev_warn\<close> messages of the command builder and the one of the TE2 update.\<close>

datatype panel_warning =
  Unsupported_vrefresh_manual int
  | Unsupported_idle_vrefresh_auto int
  | Failed_to_get_timing

text \<open>
  Modelled from the spec: \<^verbatim>\<open>struct exynos_panel\<close> is declared in
  \<^verbatim>\<open>panel-samsung-drv.h\<close>. The record holds the fields the nt37290 code reads or
  writes. \<open>hbm_on\<close> stands for \<^verbatim>\<open>IS_HBM_ON(ctx->hbm_mode)\<close> and
  \<open>panel_active\<close> for \<^verbatim>\<open>is_panel_active(ctx)\<close>. The transport is explicit:
  \<open>dcs_queue\<close> is the batch being assembled, \<open>dcs_sent\<close> the batches flushed to
  the panel, oldest first; \<open>warn_log\<close> collects the \<^verbatim>\<open>dev_warn\<close> reports and
  \<open>bl_state_changed\<close> counts the calls of \<^verbatim>\<open>backlight_state_changed\<close>.
\<close>

record exynos_panel =
  current_mode :: "exynos_panel_mode option"
  min_vrefresh :: int
  hbm_on :: bool
  dimming_on :: bool
  panel_idle_enabled :: bool
  idle_delay_ms :: u32
  self_refresh_active :: bool
  panel_idle_vrefresh :: u32
  panel_active :: bool
  last_commit_ts :: int
  last_mode_set_ts :: int
  dcs_queue :: "dsi_cmd list"
  dcs_sent :: "dsi_cmd list list"
  warn_log :: "panel_warning list"
  bl_state_changed :: nat

text \<open>
  \<^verbatim>\<open>struct nt37290_panel\<close> (lines 48-69). Each \<^verbatim>\<open>DECLARE_BITMAP(_, G10_FEAT_MAX)\<close>
  is one \<^verbatim>\<open>unsigned long\<close>.
\<close>

record nt37290_panel =
  base :: exynos_panel
  feat :: ulong
  hw_feat :: ulong
  hw_vrefresh :: int
  hw_idle_vrefresh :: int
  auto_mode_vrefresh :: u32
  delayed_idle :: bool

section \<open>Transport and logging primitives\<close>

text \<open>
  Modelled from the spec: the macros \<^verbatim>\<open>EXYNOS_DCS_BUF_ADD\<close>,
  \<^verbatim>\<open>EXYNOS_DCS_BUF_ADD_SET\<close>, \<^verbatim>\<open>EXYNOS_DCS_BUF_ADD_AND_FLUSH\<close> and
  \<^verbatim>\<open>EXYNOS_DCS_WRITE_TABLE\<close> of \<^verbatim>\<open>panel-samsung-drv.h\<close> are not among the source
  files. A command batch is an ordered, append-only sequence that is flushed to the
  transport as one transaction; a direct write sends its command at once, together with
  whatever is queued.
\<close>

definition dcs_buf_add :: "dsi_cmd \<Rightarrow> exynos_panel \<Rightarrow> exynos_panel" where
  "dcs_buf_add c ctx = ctx\<lparr>dcs_queue := dcs_queue ctx @ [c]\<rparr>"

definition dcs_buf_add_and_flush :: "dsi_cmd \<Rightarrow> exynos_panel \<Rightarrow> exynos_panel" where
  "dcs_buf_add_and_flush c ctx =
     ctx\<lparr>dcs_sent := dcs_sent ctx @ [dcs_queue ctx @ [c]], dcs_queue := []\<rparr>"

definition dcs_write_table :: "dsi_cmd \<Rightarrow> exynos_panel \<Rightarrow> exynos_panel" where
  "dcs_write_table c ctx = dcs_buf_add_and_flush c ctx"

definition dev_warn :: "panel_warning \<Rightarrow> exynos_panel \<Rightarrow> exynos_panel" where
  "dev_warn w ctx = ctx\<lparr>warn_log := warn_log ctx @ [w]\<rparr>"

text \<open>A block of statements acting on the panel context, run in order.\<close>

definition run :: "('s \<Rightarrow> 's) list \<Rightarrow> 's \<Rightarrow> 's" where
  "run stmts s = fold (\<lambda>stmt. stmt) stmts s"

text \<open>\<^verbatim>\<open>cmd2_page0\<close> and \<^verbatim>\<open>stream_2c\<close> (lines 75-76).\<close>

definition cmd2_page0 :: dsi_cmd where
  "cmd2_page0 = [0xF0, 0x55, 0xAA, 0x52, 0x08, 0x00]"

definition stream_2c :: dsi_cmd where
  "stream_2c = [0x2C]"

section \<open>TE2 option and timing\<close>

text \<open>\<^verbatim>\<open>nt37290_get_te2_option\<close> (lines 340-353).\<close>

definition nt37290_get_te2_option :: "nt37290_panel \<Rightarrow> u8" where
  "nt37290_get_te2_option spanel =
     (case current_mode (base spanel) of
        None \<Rightarrow> NT37290_TE2_CHANGEABLE
      | Some cur \<Rightarrow>
          if is_lp_mode cur \<or>
             (hw_idle_vrefresh spanel > 0 \<and> hw_idle_vrefresh spanel < NT37290_TE2_MIN_RATE)
          then NT37290_TE2_FIXED
          else NT37290_TE2_CHANGEABLE)"

text \<open>\<^verbatim>\<open>EAGAIN\<close> of the kernel's errno table.\<close>

definition EAGAIN :: int where
  "EAGAIN = 11"

text \<open>
  \<^verbatim>\<open>nt37290_update_te2\<close> (lines 355-392). The timing source
  \<^verbatim>\<open>exynos_panel_get_current_mode_te2\<close> lives outside the source files: its return
  code \<open>ret\<close> and the timing it fills in are arguments.
\<close>

definition te2_cmds :: "u8 \<Rightarrow> u8 \<Rightarrow> u8 \<Rightarrow> exynos_panel \<Rightarrow> exynos_panel" where
  "te2_cmds option rising falling =
     run [dcs_buf_add [0xF0, 0x55, 0xAA, 0x52, 0x08, 0x03],
          dcs_buf_add [0xC3, option],
          dcs_buf_add [0x6F, 0x04],
          dcs_buf_add [0xC3, option],
          dcs_buf_add_and_flush [0xC4, 0x00, 0x00, 0x00, 0x00, 0x00, rising, 0x10, falling]]"

definition nt37290_update_te2 ::
  "nt37290_panel \<Rightarrow> int \<Rightarrow> exynos_panel_te2_timing \<Rightarrow> nt37290_panel" where
  "nt37290_update_te2 spanel ret timing =
     (let option = nt37290_get_te2_option spanel in
      if ret = 0 then
        spanel\<lparr>base := te2_cmds option (ucast (rising_edge timing AND 0xFF))
                           (ucast (falling_edge timing AND 0xFF)) (base spanel)\<rparr>
      else if ret = - EAGAIN then
        spanel\<lparr>base := te2_cmds option 0 0x30 (base spanel)\<rparr>
      else
        spanel\<lparr>base := dev_warn Failed_to_get_timing (base spanel)\<rparr>)"

section \<open>Idle refresh rate\<close>

text \<open>\<^verbatim>\<open>is_auto_mode_allowed\<close> (lines 394-401).\<close>

definition is_auto_mode_allowed :: "exynos_panel \<Rightarrow> bool" where
  "is_auto_mode_allowed ctx =
     (if hbm_on ctx \<or> dimming_on ctx then False else panel_idle_enabled ctx)"

text \<open>
  \<^verbatim>\<open>nt37290_update_min_idle_vrefresh\<close> (lines 403-437), in its three steps. The value
  of \<^verbatim>\<open>panel_get_idle_time_delta(ctx)\<close>, a helper outside the source files that
  returns an \<^verbatim>\<open>unsigned int\<close> number of milliseconds, is the argument
  \<open>idle_time_delta\<close>.

  Lines 408-420: the tier chosen from \<^verbatim>\<open>ctx->min_vrefresh\<close>.
\<close>

definition bucket_idle_vrefresh :: "exynos_panel \<Rightarrow> exynos_panel_mode \<Rightarrow> int" where
  "bucket_idle_vrefresh ctx pmode =
     (let idle_vrefresh = min_vrefresh ctx in
      if idle_vrefresh = 0 \<or> \<not> is_auto_mode_allowed ctx \<or>
         idle_mode pmode = IDLE_MODE_UNSUPPORTED
      then 0
      else if idle_vrefresh \<le> 10 then 10
      else if idle_vrefresh \<le> 30 then 30
      else if idle_vrefresh \<le> 60 then 60
      else 0)"

text \<open>Lines 422-426: an idle rate that is not below the target rate is dropped.\<close>

definition capped_idle_vrefresh :: "exynos_panel \<Rightarrow> exynos_panel_mode \<Rightarrow> int" where
  "capped_idle_vrefresh ctx pmode =
     (let vrefresh = mode_vrefresh pmode;
          idle_vrefresh = bucket_idle_vrefresh ctx pmode
      in if idle_vrefresh \<ge> vrefresh then 0 else idle_vrefresh)"

text \<open>Lines 428-436: the idle delay, and the store into \<^verbatim>\<open>auto_mode_vrefresh\<close>.\<close>

definition nt37290_update_min_idle_vrefresh ::
  "nt37290_panel \<Rightarrow> exynos_panel_mode \<Rightarrow> u32 \<Rightarrow> nt37290_panel" where
  "nt37290_update_min_idle_vrefresh spanel pmode idle_time_delta =
     (let ctx = base spanel;
          idle_vrefresh = capped_idle_vrefresh ctx pmode
      in if idle_vrefresh \<noteq> 0 \<and> idle_delay_ms ctx \<noteq> 0 \<and>
            idle_time_delta < idle_delay_ms ctx
         then spanel\<lparr>delayed_idle := True, auto_mode_vrefresh := word_of_int 0\<rparr>
         else spanel\<lparr>delayed_idle := False, auto_mode_vrefresh := word_of_int idle_vrefresh\<rparr>)"

section \<open>Feature bitmaps\<close>

text \<open>
  The kernel's bitmap helpers on a one-word bitmap: \<^verbatim>\<open>set_bit\<close>, \<^verbatim>\<open>clear_bit\<close> and
  \<^verbatim>\<open>test_bit\<close> are \<open>set_bit\<close>, \<open>unset_bit\<close> and \<open>bit\<close>;
  \<^verbatim>\<open>bitmap_xor\<close> and \<^verbatim>\<open>bitmap_copy\<close> act on the whole word;
  \<^verbatim>\<open>bitmap_empty\<close> looks at the low \<open>nbits\<close> bits only and
  \<^verbatim>\<open>bitmap_clear\<close> clears \<open>nbits\<close> bits from \<open>start\<close> on.
\<close>

definition bitmap_xor :: "ulong \<Rightarrow> ulong \<Rightarrow> ulong" where
  "bitmap_xor src1 src2 = src1 XOR src2"

definition bitmap_empty :: "ulong \<Rightarrow> nat \<Rightarrow> bool" where
  "bitmap_empty src nbits = (src AND mask nbits = 0)"

definition bitmap_clear :: "ulong \<Rightarrow> nat \<Rightarrow> nat \<Rightarrow> ulong" where
  "bitmap_clear bmap start nbits = bmap AND NOT (push_bit start (mask nbits))"

section \<open>The command-batch builder\<close>

text \<open>
  The register sequence of \<^verbatim>\<open>nt37290_update_panel_feat\<close> (lines 477-529) for a
  refresh rate, an idle rate and the two feature flags.
\<close>

definition auto_frame_insertion :: "int \<Rightarrow> int \<Rightarrow> bool \<Rightarrow> exynos_panel \<Rightarrow> exynos_panel" where
  "auto_frame_insertion vrefresh idle_vrefresh fi =
     (if \<not> fi then
        (if vrefresh = 60
         then dcs_buf_add [0xBA, 0x91, 0x01, 0x01, 0x00, 0x01, 0x01, 0x01, 0x00]
         else dev_warn (Unsupported_vrefresh_manual vrefresh))
      else
        (if idle_vrefresh = 10
         then dcs_buf_add [0xBA, 0x93, 0x09, 0x03, 0x00, 0x11, 0x0B, 0x0B, 0x00, 0x06]
         else if idle_vrefresh = 30
         then dcs_buf_add [0xBA, 0x93, 0x03, 0x02, 0x00, 0x11, 0x03, 0x03, 0x00, 0x04]
         else if idle_vrefresh = 60
         then dcs_buf_add [0xBA, 0x93, 0x01, 0x01, 0x00, 0x01, 0x01, 0x01, 0x00, 0x00]
         else dev_warn (Unsupported_idle_vrefresh_auto idle_vrefresh)))"

definition panel_feat_cmds ::
  "int \<Rightarrow> int \<Rightarrow> bool \<Rightarrow> bool \<Rightarrow> exynos_panel \<Rightarrow> exynos_panel" where
  "panel_feat_cmds vrefresh idle_vrefresh ee fi =
     (if vrefresh = 120 \<and> \<not> fi then
        run [dcs_buf_add [0x2F, 0x00],
             dcs_buf_add_and_flush [0x44, 0x00, 0x00]]
      else
        run [dcs_buf_add [0x2F, 0x00],
             dcs_buf_add [0x2F, 0x30],
             dcs_buf_add [0x5A, of_bool (\<not> ee)],
             dcs_buf_add cmd2_page0,
             dcs_buf_add [0x6F, 0x1C],
             auto_frame_insertion vrefresh idle_vrefresh fi,
             dcs_buf_add [0x2C],
             if vrefresh = 120
             then dcs_buf_add_and_flush [0x44, 0x00, 0x00]
             else dcs_buf_add_and_flush [0x44, 0x00, 0x01]])"

text \<open>
  \<^verbatim>\<open>nt37290_update_panel_feat\<close> (lines 439-534). \<open>pmode\<close> may be \<^verbatim>\<open>NULL\<close>, and
  then the current mode is read; the result is \<open>None\<close> when that dereferences a
  \<^verbatim>\<open>NULL\<close> current mode. \<^verbatim>\<open>bitmap_fill\<close> on the enforce path writes a local that
  is not read afterwards.
\<close>

definition nt37290_update_panel_feat ::
  "nt37290_panel \<Rightarrow> exynos_panel_mode option \<Rightarrow> bool \<Rightarrow> (bool \<times> nt37290_panel) option" where
  "nt37290_update_panel_feat spanel pmode enforce =
     (case (case pmode of Some m \<Rightarrow> Some m | None \<Rightarrow> current_mode (base spanel)) of
        None \<Rightarrow> None
      | Some m \<Rightarrow>
          (let vrefresh = mode_vrefresh m;
               idle_vrefresh = sint (auto_mode_vrefresh spanel);
               s1 = spanel\<lparr>base := (base spanel)\<lparr>panel_idle_vrefresh := 0\<rparr>\<rparr>
           in if \<not> enforce \<and>
                 bitmap_empty (bitmap_xor (feat s1) (hw_feat s1)) G10_FEAT_MAX \<and>
                 vrefresh = hw_vrefresh s1 \<and>
                 idle_vrefresh = hw_idle_vrefresh s1
              then Some (False, s1)
              else
                (let s2 = s1\<lparr>hw_vrefresh := vrefresh,
                             hw_idle_vrefresh := idle_vrefresh,
                             hw_feat := feat s1\<rparr>;
                     ee = bit (feat s2) G10_FEAT_EARLY_EXIT;
                     fi = bit (feat s2) G10_FEAT_FRAME_AUTO
                 in Some (True,
                      s2\<lparr>base := panel_feat_cmds vrefresh idle_vrefresh ee fi (base s2)\<rparr>))))"

section \<open>The frequency orchestrator\<close>

text \<open>
  \<^verbatim>\<open>nt37290_change_frequency\<close> (lines 536-572). It reads
  \<^verbatim>\<open>ctx->current_mode->exynos_mode.is_lp_mode\<close> without a check: the result is
  \<open>None\<close> when there is no current mode.
\<close>

definition idle_active_of :: "nt37290_panel \<Rightarrow> exynos_panel_mode \<Rightarrow> bool" where
  "idle_active_of spanel pmode =
     (auto_mode_vrefresh spanel \<noteq> 0 \<and>
      (idle_mode pmode = IDLE_MODE_ON_INACTIVITY \<or>
       (idle_mode pmode = IDLE_MODE_ON_SELF_REFRESH \<and> self_refresh_active (base spanel))))"

definition nt37290_change_frequency ::
  "nt37290_panel \<Rightarrow> exynos_panel_mode \<Rightarrow> u32 \<Rightarrow> (bool \<times> nt37290_panel) option" where
  "nt37290_change_frequency spanel pmode idle_time_delta =
     (case current_mode (base spanel) of
        None \<Rightarrow> None
      | Some cur \<Rightarrow>
          (let was_lp_mode = is_lp_mode cur;
               s1 = nt37290_update_min_idle_vrefresh spanel pmode idle_time_delta;
               idle_active = idle_active_of s1 pmode;
               s2 = (if idle_active
                     then s1\<lparr>feat := set_bit G10_FEAT_FRAME_AUTO
                                        (set_bit G10_FEAT_EARLY_EXIT (feat s1))\<rparr>
                     else s1\<lparr>feat := unset_bit G10_FEAT_FRAME_AUTO
                                        (unset_bit G10_FEAT_EARLY_EXIT (feat s1))\<rparr>)
           in case nt37290_update_panel_feat s2 (Some pmode) was_lp_mode of
                None \<Rightarrow> None
              | Some (updated, s3) \<Rightarrow>
                  (let s4 = s3\<lparr>base := (base s3)\<lparr>panel_idle_vrefresh :=
                                 (if self_refresh_active (base s3)
                                  then word_of_int (hw_idle_vrefresh s3) else 0)\<rparr>\<rparr>;
                       s5 = (if updated
                             then s4\<lparr>base := (base s4)\<lparr>bl_state_changed :=
                                         Suc (bl_state_changed (base s4))\<rparr>\<rparr>
                             else s4)
                   in Some (updated, s5))))"

section \<open>The early-exit trigger\<close>

text \<open>
  The kernel's \<^verbatim>\<open>ktime_sub\<close> and \<^verbatim>\<open>ktime_to_us\<close>: times are nanoseconds, and the
  conversion to microseconds is C's division, which truncates towards zero.
\<close>

definition ktime_sub :: "int \<Rightarrow> int \<Rightarrow> int" where
  "ktime_sub lhs rhs = lhs - rhs"

definition ktime_to_us :: "int \<Rightarrow> int" where
  "ktime_to_us kt = kt sdiv 1000"

definition EARLY_EXIT_THRESHOLD_US :: int where
  "EARLY_EXIT_THRESHOLD_US = 17000"

definition IDLE_DELAY_THRESHOLD_US :: int where
  "IDLE_DELAY_THRESHOLD_US = 50000"

text \<open>
  \<^verbatim>\<open>nt37290_trigger_early_exit\<close> (lines 620-647). The two readings of
  \<^verbatim>\<open>ktime_get()\<close> are the arguments \<open>now\<close> (line 622) and \<open>now_set\<close> (line 632).
  The long-idle branch dereferences the current mode.
\<close>

definition nt37290_trigger_early_exit ::
  "nt37290_panel \<Rightarrow> int \<Rightarrow> int \<Rightarrow> u32 \<Rightarrow> nt37290_panel option" where
  "nt37290_trigger_early_exit spanel now now_set idle_time_delta =
     (let delta = ktime_sub now (last_commit_ts (base spanel));
          delta_us = ktime_to_us delta
      in if delta_us < EARLY_EXIT_THRESHOLD_US then Some spanel
         else
           (let s1 = spanel\<lparr>base := (base spanel)\<lparr>last_mode_set_ts := now_set\<rparr>\<rparr>
            in if idle_delay_ms (base s1) \<noteq> 0 \<and> delta_us > IDLE_DELAY_THRESHOLD_US
               then (case current_mode (base s1) of
                       None \<Rightarrow> None
                     | Some pmode \<Rightarrow>
                         map_option snd (nt37290_change_frequency s1 pmode idle_time_delta))
               else Some (s1\<lparr>base := dcs_write_table stream_2c (base s1)\<rparr>)))"

text \<open>\<^verbatim>\<open>nt37290_commit_done\<close> (lines 649-666).\<close>

definition nt37290_commit_done ::
  "nt37290_panel \<Rightarrow> int \<Rightarrow> int \<Rightarrow> u32 \<Rightarrow> nt37290_panel option" where
  "nt37290_commit_done spanel now now_set idle_time_delta =
     (case current_mode (base spanel) of
        None \<Rightarrow> Some spanel
      | Some pmode \<Rightarrow>
          if \<not> panel_active (base spanel) then Some spanel
          else if bit (feat spanel) G10_FEAT_EARLY_EXIT
          then nt37290_trigger_early_exit spanel now now_set idle_time_delta
          else if idle_mode pmode = IDLE_MODE_ON_INACTIVITY \<and> delayed_idle spanel
          then map_option snd (nt37290_change_frequency spanel pmode idle_time_delta)
          else Some spanel)"

section \<open>Power-off and attach\<close>

text \<open>
  \<^verbatim>\<open>nt37290_disable\<close> (lines 713-724). \<^verbatim>\<open>exynos_panel_disable\<close> belongs to the
  common panel layer, outside the source files; it knows the base struct only and is an
  argument here, returning its status and the base it leaves.
\<close>

definition nt37290_disable ::
  "(exynos_panel \<Rightarrow> int \<times> exynos_panel) \<Rightarrow> nt37290_panel \<Rightarrow> int \<times> nt37290_panel" where
  "nt37290_disable exynos_panel_disable spanel =
     (let s1 = spanel\<lparr>hw_feat := bitmap_clear (hw_feat spanel) 0 G10_FEAT_MAX,
                      hw_vrefresh := 60,
                      hw_idle_vrefresh := 0\<rparr>;
          (ret, b) = exynos_panel_disable (base s1)
      in (ret, s1\<lparr>base := b\<rparr>))"

text \<open>
  \<^verbatim>\<open>nt37290_panel_probe\<close> (lines 951-965): the panel struct comes zeroed from
  \<^verbatim>\<open>devm_kzalloc\<close> and four fields are set; \<open>b\<close> is the base as
  \<^verbatim>\<open>exynos_panel_common_init\<close> sets it up.
\<close>

definition nt37290_panel_probe :: "exynos_panel \<Rightarrow> nt37290_panel" where
  "nt37290_panel_probe b =
     \<lparr>base = b, feat = 0, hw_feat = 0, hw_vrefresh = 60, hw_idle_vrefresh = 0,
      auto_mode_vrefresh = 0, delayed_idle = False\<rparr>"

section \<open>The tier table in the words of the specification\<close>

text \<open>
  The specification's bucketing rule, written from its own sentence: at most 10 gives 10,
  at most 30 gives 30, at most 60 gives 60, anything else gives 0.
\<close>

definition spec_bucket_tier :: "int \<Rightarrow> int" where
  "spec_bucket_tier m =
     (if m \<le> 10 then 10 else if m \<le> 30 then 30 else if m \<le> 60 then 60 else 0)"

section \<open>The mode table and example panels\<close>

text \<open>
  \<^verbatim>\<open>nt37290_modes\<close> (lines 853-914) and \<^verbatim>\<open>nt37290_lp_mode\<close> (lines 916-941).
  The refresh rates are those of the timings: a pixel clock of 298620, 597240 and 149310 kHz
  over 1580 by 3150 total pixels. The low-power mode leaves \<^verbatim>\<open>idle_mode\<close> out of its
  initialiser.
\<close>

definition nt37290_mode_60 :: exynos_panel_mode where
  "nt37290_mode_60 =
     \<lparr>mode_vrefresh = 60, is_lp_mode = False, idle_mode = IDLE_MODE_UNSUPPORTED\<rparr>"

definition nt37290_mode_120 :: exynos_panel_mode where
  "nt37290_mode_120 =
     \<lparr>mode_vrefresh = 120, is_lp_mode = False, idle_mode = IDLE_MODE_ON_SELF_REFRESH\<rparr>"

definition nt37290_lp_mode :: exynos_panel_mode where
  "nt37290_lp_mode =
     \<lparr>mode_vrefresh = 30, is_lp_mode = True, idle_mode = IDLE_MODE_UNSUPPORTED\<rparr>"

text \<open>
  A panel right after attach, showing the 120 Hz mode with self-refresh active, idling
  enabled down to 10 Hz and no idle delay configured.
\<close>

definition example_base :: exynos_panel where
  "example_base =
     \<lparr>current_mode = Some nt37290_mode_120, min_vrefresh = 10, hbm_on = False,
      dimming_on = False, panel_idle_enabled = True, idle_delay_ms = 0,
      self_refresh_active = True, panel_idle_vrefresh = 0, panel_active = True,
      last_commit_ts = 0, last_mode_set_ts = 0, dcs_queue = [], dcs_sent = [],
      warn_log = [], bl_state_changed = 0\<rparr>"

definition example_panel :: nt37290_panel where
  "example_panel = nt37290_panel_probe example_base"

text \<open>The batch that commits 120 Hz with automatic frame insertion down to 10 Hz.\<close>

definition idle_10_batch :: "dsi_cmd list" where
  "idle_10_batch =
     [[0x2F, 0x00], [0x2F, 0x30], [0x5A, 0x00], [0xF0, 0x55, 0xAA, 0x52, 0x08, 0x00],
      [0x6F, 0x1C], [0xBA, 0x93, 0x09, 0x03, 0x00, 0x11, 0x0B, 0x0B, 0x00, 0x06],
      [0x2C], [0x44, 0x00, 0x00]]"

text \<open>The example panel once that configuration is committed: both features are on.\<close>

definition idle_committed_panel :: nt37290_panel where
  "idle_committed_panel =
     \<lparr>base = example_base\<lparr>panel_idle_vrefresh := 10, dcs_sent := [idle_10_batch],
                           bl_state_changed := 1\<rparr>,
      feat = 3, hw_feat = 3, hw_vrefresh = 120, hw_idle_vrefresh = 10,
      auto_mode_vrefresh = 10, delayed_idle = False\<rparr>"

text \<open>The same panel with an idle delay of 50 ms configured.\<close>

definition idle_delay_panel :: nt37290_panel where
  "idle_delay_panel =
     idle_committed_panel\<lparr>base := (base idle_committed_panel)\<lparr>idle_delay_ms := 50\<rparr>\<rparr>"

text \<open>
  A panel in always-on display: the current mode is the low-power mode, idling is off
  (\<^verbatim>\<open>min_vrefresh\<close> is 0), and 120 Hz is requested.
\<close>

definition aod_panel :: nt37290_panel where
  "aod_panel =
     nt37290_panel_probe (example_base\<lparr>current_mode := Some nt37290_lp_mode, min_vrefresh := 0\<rparr>)"

definition aod_panel_flushed :: nt37290_panel where
  "aod_panel_flushed =
     aod_panel\<lparr>hw_vrefresh := 120,
               base := (base aod_panel)\<lparr>dcs_sent := [[[0x2F, 0x00], [0x44, 0x00, 0x00]]],
                                        bl_state_changed := 1\<rparr>\<rparr>"

definition aod_panel_flushed_twice :: nt37290_panel where
  "aod_panel_flushed_twice =
     aod_panel\<lparr>hw_vrefresh := 120,
               base := (base aod_panel)\<lparr>dcs_sent := [[[0x2F, 0x00], [0x44, 0x00, 0x00]],
                                                     [[0x2F, 0x00], [0x44, 0x00, 0x00]]],
                                        bl_state_changed := 2\<rparr>\<rparr>"

section \<open>Evaluation and frame lemmas\<close>

lemmas model_defs =
  nt37290_change_frequency_def nt37290_update_panel_feat_def
  nt37290_update_min_idle_vrefresh_def capped_idle_vrefresh_def bucket_idle_vrefresh_def
  is_auto_mode_allowed_def idle_active_of_def panel_feat_cmds_def auto_frame_insertion_def
  run_def dcs_buf_add_def dcs_buf_add_and_flush_def dev_warn_def
  bitmap_empty_def bitmap_xor_def G10_FEAT_EARLY_EXIT_def
  G10_FEAT_FRAME_AUTO_def G10_FEAT_MAX_def cmd2_page0_def
  nt37290_panel_probe_def

lemmas example_defs =
  example_base_def example_panel_def idle_10_batch_def idle_committed_panel_def
  idle_delay_panel_def nt37290_mode_120_def nt37290_lp_mode_def

lemma feat_both_on:
  "set_bit (Suc 0) (1 :: ulong) = 3"
  "set_bit (Suc 0) (set_bit 0 (3 :: ulong)) = 3"
  "bit (3 :: ulong) 0"
  "bit (3 :: ulong) (Suc 0)"
  "unset_bit (Suc 0) (unset_bit 0 (3 :: ulong)) = 0"
  by (simp_all add: set_bit_eq_or unset_bit_eq_and_not bit_simps)

lemma feat_bits_idem:
  "set_bit G10_FEAT_FRAME_AUTO (set_bit G10_FEAT_EARLY_EXIT
     (set_bit G10_FEAT_FRAME_AUTO (set_bit G10_FEAT_EARLY_EXIT (w :: ulong)))) =
   set_bit G10_FEAT_FRAME_AUTO (set_bit G10_FEAT_EARLY_EXIT w)"
  "unset_bit G10_FEAT_FRAME_AUTO (unset_bit G10_FEAT_EARLY_EXIT
     (unset_bit G10_FEAT_FRAME_AUTO (unset_bit G10_FEAT_EARLY_EXIT (w :: ulong)))) =
   unset_bit G10_FEAT_FRAME_AUTO (unset_bit G10_FEAT_EARLY_EXIT w)"
  by (rule bit_eqI; auto simp add: bit_simps)+

lemma feat_bits_after:
  "bit (set_bit G10_FEAT_FRAME_AUTO (set_bit G10_FEAT_EARLY_EXIT (w :: ulong))) G10_FEAT_EARLY_EXIT"
  "bit (set_bit G10_FEAT_FRAME_AUTO (set_bit G10_FEAT_EARLY_EXIT (w :: ulong))) G10_FEAT_FRAME_AUTO"
  "\<not> bit (unset_bit G10_FEAT_FRAME_AUTO (unset_bit G10_FEAT_EARLY_EXIT (w :: ulong))) G10_FEAT_EARLY_EXIT"
  "\<not> bit (unset_bit G10_FEAT_FRAME_AUTO (unset_bit G10_FEAT_EARLY_EXIT (w :: ulong))) G10_FEAT_FRAME_AUTO"
  by (simp_all add: G10_FEAT_EARLY_EXIT_def G10_FEAT_FRAME_AUTO_def bit_simps)

lemma and_not_and_self: "((w :: ulong) AND NOT m) AND m = 0"
  by (simp add: and.assoc)

lemma bitmap_empty_xor_self: "bitmap_empty (bitmap_xor w w) n"
  by (simp add: bitmap_empty_def bitmap_xor_def)

text \<open>The command builder touches the transport and the warning log only.\<close>

lemma panel_feat_cmds_fields:
  "current_mode (panel_feat_cmds v i ee fi ctx) = current_mode ctx"
  "min_vrefresh (panel_feat_cmds v i ee fi ctx) = min_vrefresh ctx"
  "hbm_on (panel_feat_cmds v i ee fi ctx) = hbm_on ctx"
  "dimming_on (panel_feat_cmds v i ee fi ctx) = dimming_on ctx"
  "panel_idle_enabled (panel_feat_cmds v i ee fi ctx) = panel_idle_enabled ctx"
  "idle_delay_ms (panel_feat_cmds v i ee fi ctx) = idle_delay_ms ctx"
  "self_refresh_active (panel_feat_cmds v i ee fi ctx) = self_refresh_active ctx"
  "panel_idle_vrefresh (panel_feat_cmds v i ee fi ctx) = panel_idle_vrefresh ctx"
  "bl_state_changed (panel_feat_cmds v i ee fi ctx) = bl_state_changed ctx"
  by (simp_all add: panel_feat_cmds_def auto_frame_insertion_def run_def dcs_buf_add_def
      dcs_buf_add_and_flush_def dev_warn_def)

subsection \<open>The idle-rate resolver\<close>

lemma bucket_cases:
  "bucket_idle_vrefresh ctx pmode = 0 \<or>
   bucket_idle_vrefresh ctx pmode = spec_bucket_tier (min_vrefresh ctx)"
  by (simp add: bucket_idle_vrefresh_def spec_bucket_tier_def Let_def)

lemma spec_bucket_tier_range: "spec_bucket_tier m \<in> {0, 10, 30, 60}"
  by (simp add: spec_bucket_tier_def)

lemma capped_cases:
  "capped_idle_vrefresh ctx pmode = 0 \<or>
   (capped_idle_vrefresh ctx pmode = bucket_idle_vrefresh ctx pmode \<and>
    capped_idle_vrefresh ctx pmode = spec_bucket_tier (min_vrefresh ctx) \<and>
    capped_idle_vrefresh ctx pmode < mode_vrefresh pmode)"
  using bucket_cases [of ctx pmode]
  by (auto simp add: capped_idle_vrefresh_def Let_def)

lemma capped_range: "capped_idle_vrefresh ctx pmode \<in> {0, 10, 30, 60}"
  using capped_cases [of ctx pmode] spec_bucket_tier_range [of "min_vrefresh ctx"] by auto

lemma auto_mode_cases:
  "auto_mode_vrefresh (nt37290_update_min_idle_vrefresh spanel pmode d) = 0 \<or>
   auto_mode_vrefresh (nt37290_update_min_idle_vrefresh spanel pmode d) =
     word_of_int (capped_idle_vrefresh (base spanel) pmode)"
  by (simp add: nt37290_update_min_idle_vrefresh_def Let_def)

lemma uint_tier: "x \<in> {0, 10, 30, 60} \<Longrightarrow> uint (word_of_int x :: u32) = x"
  by auto

lemma auto_mode_range:
  "auto_mode_vrefresh (nt37290_update_min_idle_vrefresh spanel pmode d) \<in> {0, 10, 30, 60}"
  using auto_mode_cases [of spanel pmode d] capped_range [of "base spanel" pmode]
  by auto

lemma bucket_exact:
  "bucket_idle_vrefresh ctx pmode =
     (if min_vrefresh ctx = 0 \<or> hbm_on ctx \<or> dimming_on ctx \<or> \<not> panel_idle_enabled ctx \<or>
         idle_mode pmode = IDLE_MODE_UNSUPPORTED
      then 0 else spec_bucket_tier (min_vrefresh ctx))"
  by (simp add: bucket_idle_vrefresh_def is_auto_mode_allowed_def spec_bucket_tier_def Let_def)

lemma resolved_exact:
  "uint (auto_mode_vrefresh (nt37290_update_min_idle_vrefresh spanel pmode d)) =
     (if min_vrefresh (base spanel) = 0 \<or> hbm_on (base spanel) \<or> dimming_on (base spanel) \<or>
         \<not> panel_idle_enabled (base spanel) \<or> idle_mode pmode = IDLE_MODE_UNSUPPORTED
      then 0
      else if mode_vrefresh pmode \<le> spec_bucket_tier (min_vrefresh (base spanel)) then 0
      else if idle_delay_ms (base spanel) \<noteq> 0 \<and> d < idle_delay_ms (base spanel) then 0
      else spec_bucket_tier (min_vrefresh (base spanel)))"
proof -
  have t: "uint (word_of_int (spec_bucket_tier (min_vrefresh (base spanel))) :: u32) =
      spec_bucket_tier (min_vrefresh (base spanel))"
    by (rule uint_tier [OF spec_bucket_tier_range])
  show ?thesis
    using t
    by (simp add: nt37290_update_min_idle_vrefresh_def capped_idle_vrefresh_def bucket_exact
        Let_def)
qed


lemma capped_idle_vrefresh_cong:
  assumes "min_vrefresh a = min_vrefresh b" "hbm_on a = hbm_on b" "dimming_on a = dimming_on b"
    "panel_idle_enabled a = panel_idle_enabled b"
  shows "capped_idle_vrefresh a pmode = capped_idle_vrefresh b pmode"
  using assms
  by (simp add: capped_idle_vrefresh_def bucket_idle_vrefresh_def is_auto_mode_allowed_def)

lemma update_min_idle_fields:
  "base (nt37290_update_min_idle_vrefresh s pmode d) = base s"
  "feat (nt37290_update_min_idle_vrefresh s pmode d) = feat s"
  "hw_feat (nt37290_update_min_idle_vrefresh s pmode d) = hw_feat s"
  "hw_vrefresh (nt37290_update_min_idle_vrefresh s pmode d) = hw_vrefresh s"
  "hw_idle_vrefresh (nt37290_update_min_idle_vrefresh s pmode d) = hw_idle_vrefresh s"
  by (simp_all add: nt37290_update_min_idle_vrefresh_def Let_def)

lemma update_min_idle_cong:
  assumes "min_vrefresh (base a) = min_vrefresh (base b)" "hbm_on (base a) = hbm_on (base b)"
    "dimming_on (base a) = dimming_on (base b)"
    "panel_idle_enabled (base a) = panel_idle_enabled (base b)"
    "idle_delay_ms (base a) = idle_delay_ms (base b)"
    "(d1 < idle_delay_ms (base a)) = (d2 < idle_delay_ms (base a))"
  shows "delayed_idle (nt37290_update_min_idle_vrefresh a pmode d1) =
         delayed_idle (nt37290_update_min_idle_vrefresh b pmode d2)"
    "auto_mode_vrefresh (nt37290_update_min_idle_vrefresh a pmode d1) =
     auto_mode_vrefresh (nt37290_update_min_idle_vrefresh b pmode d2)"
  using assms capped_idle_vrefresh_cong [of "base a" "base b" pmode]
  by (simp_all add: nt37290_update_min_idle_vrefresh_def Let_def)

lemma update_min_idle_fixed:
  assumes "delayed_idle (nt37290_update_min_idle_vrefresh s pmode d) = delayed_idle s"
    "auto_mode_vrefresh (nt37290_update_min_idle_vrefresh s pmode d) = auto_mode_vrefresh s"
  shows "nt37290_update_min_idle_vrefresh s pmode d = s"
  using assms
  by (intro nt37290_panel.equality)
    (simp_all add: nt37290_update_min_idle_vrefresh_def Let_def)

lemma idle_active_of_cong:
  assumes "auto_mode_vrefresh a = auto_mode_vrefresh b"
    "self_refresh_active (base a) = self_refresh_active (base b)"
  shows "idle_active_of a pmode = idle_active_of b pmode"
  using assms by (simp add: idle_active_of_def)

subsection \<open>The panel-feature update\<close>

lemma update_panel_feat_returns:
  "\<exists>u s'. nt37290_update_panel_feat s (Some m) enforce = Some (u, s')"
  by (auto simp add: nt37290_update_panel_feat_def Let_def)

lemma update_panel_feat_post:
  assumes "nt37290_update_panel_feat s (Some m) enforce = Some (u, s')"
  shows "feat s' = feat s" "auto_mode_vrefresh s' = auto_mode_vrefresh s"
    "delayed_idle s' = delayed_idle s"
    "current_mode (base s') = current_mode (base s)"
    "min_vrefresh (base s') = min_vrefresh (base s)"
    "hbm_on (base s') = hbm_on (base s)"
    "dimming_on (base s') = dimming_on (base s)"
    "panel_idle_enabled (base s') = panel_idle_enabled (base s)"
    "idle_delay_ms (base s') = idle_delay_ms (base s)"
    "self_refresh_active (base s') = self_refresh_active (base s)"
    "panel_idle_vrefresh (base s') = 0"
    "bitmap_empty (bitmap_xor (feat s') (hw_feat s')) G10_FEAT_MAX"
    "mode_vrefresh m = hw_vrefresh s'"
    "sint (auto_mode_vrefresh s') = hw_idle_vrefresh s'"
  using assms
  by (auto simp add: nt37290_update_panel_feat_def Let_def panel_feat_cmds_fields
      bitmap_empty_xor_self split: if_splits)

lemma update_panel_feat_enforce:
  "\<exists>s'. nt37290_update_panel_feat s (Some m) True = Some (True, s')"
  by (simp add: nt37290_update_panel_feat_def Let_def)

lemma update_panel_feat_noop:
  assumes "bitmap_empty (bitmap_xor (feat s) (hw_feat s)) G10_FEAT_MAX"
    "mode_vrefresh m = hw_vrefresh s"
    "sint (auto_mode_vrefresh s) = hw_idle_vrefresh s"
  shows "nt37290_update_panel_feat s (Some m) False =
     Some (False, s\<lparr>base := (base s)\<lparr>panel_idle_vrefresh := 0\<rparr>\<rparr>)"
  using assms by (simp add: nt37290_update_panel_feat_def Let_def)

subsection \<open>The frequency orchestrator\<close>

lemma change_frequency_unfold:
  assumes cur: "current_mode (base s) = Some cur"
    and upf: "nt37290_update_panel_feat
       (nt37290_update_min_idle_vrefresh s pmode d
          \<lparr>feat := (if idle_active_of (nt37290_update_min_idle_vrefresh s pmode d) pmode
                     then set_bit G10_FEAT_FRAME_AUTO (set_bit G10_FEAT_EARLY_EXIT (feat s))
                     else unset_bit G10_FEAT_FRAME_AUTO
                            (unset_bit G10_FEAT_EARLY_EXIT (feat s)))\<rparr>)
       (Some pmode) (is_lp_mode cur) = Some (u, s3)"
  shows "nt37290_change_frequency s pmode d =
     Some (u, (if u then (\<lambda>t. t\<lparr>base := (base t)\<lparr>bl_state_changed :=
                                       Suc (bl_state_changed (base t))\<rparr>\<rparr>)
               else (\<lambda>t. t))
              (s3\<lparr>base := (base s3)\<lparr>panel_idle_vrefresh :=
                   (if self_refresh_active (base s3)
                    then word_of_int (hw_idle_vrefresh s3) else 0)\<rparr>\<rparr>))"
proof (cases "idle_active_of (nt37290_update_min_idle_vrefresh s pmode d) pmode")
  case True
  with cur upf show ?thesis
    by (simp add: nt37290_change_frequency_def Let_def update_min_idle_fields)
next
  case False
  with cur upf show ?thesis
    by (simp add: nt37290_change_frequency_def Let_def update_min_idle_fields)
qed

lemma change_frequency_returns:
  assumes "current_mode (base s) = Some cur"
  shows "\<exists>u s'. nt37290_change_frequency s pmode d = Some (u, s')"
proof -
  obtain u s3 where "nt37290_update_panel_feat
       (nt37290_update_min_idle_vrefresh s pmode d
          \<lparr>feat := (if idle_active_of (nt37290_update_min_idle_vrefresh s pmode d) pmode
                     then set_bit G10_FEAT_FRAME_AUTO (set_bit G10_FEAT_EARLY_EXIT (feat s))
                     else unset_bit G10_FEAT_FRAME_AUTO
                            (unset_bit G10_FEAT_EARLY_EXIT (feat s)))\<rparr>)
       (Some pmode) (is_lp_mode cur) = Some (u, s3)"
    using update_panel_feat_returns by blast
  from change_frequency_unfold [OF assms this] show ?thesis by blast
qed

lemma change_frequency_lp:
  assumes cur: "current_mode (base s) = Some cur" and lp: "is_lp_mode cur"
  shows "\<exists>s'. nt37290_change_frequency s pmode d = Some (True, s')"
proof -
  obtain s3 where "nt37290_update_panel_feat
       (nt37290_update_min_idle_vrefresh s pmode d
          \<lparr>feat := (if idle_active_of (nt37290_update_min_idle_vrefresh s pmode d) pmode
                     then set_bit G10_FEAT_FRAME_AUTO (set_bit G10_FEAT_EARLY_EXIT (feat s))
                     else unset_bit G10_FEAT_FRAME_AUTO
                            (unset_bit G10_FEAT_EARLY_EXIT (feat s)))\<rparr>)
       (Some pmode) (is_lp_mode cur) = Some (True, s3)"
    using update_panel_feat_enforce lp by auto
  from change_frequency_unfold [OF cur this] show ?thesis by blast
qed

lemma change_frequency_post:
  assumes cur: "current_mode (base s) = Some cur"
    and cf: "nt37290_change_frequency s pmode d = Some (u, s')"
  shows "feat s' = (if idle_active_of (nt37290_update_min_idle_vrefresh s pmode d) pmode
                     then set_bit G10_FEAT_FRAME_AUTO (set_bit G10_FEAT_EARLY_EXIT (feat s))
                     else unset_bit G10_FEAT_FRAME_AUTO
                            (unset_bit G10_FEAT_EARLY_EXIT (feat s)))"
    "auto_mode_vrefresh s' = auto_mode_vrefresh (nt37290_update_min_idle_vrefresh s pmode d)"
    "delayed_idle s' = delayed_idle (nt37290_update_min_idle_vrefresh s pmode d)"
    "current_mode (base s') = current_mode (base s)"
    "min_vrefresh (base s') = min_vrefresh (base s)"
    "hbm_on (base s') = hbm_on (base s)"
    "dimming_on (base s') = dimming_on (base s)"
    "panel_idle_enabled (base s') = panel_idle_enabled (base s)"
    "idle_delay_ms (base s') = idle_delay_ms (base s)"
    "self_refresh_active (base s') = self_refresh_active (base s)"
    "panel_idle_vrefresh (base s') =
       (if self_refresh_active (base s) then word_of_int (hw_idle_vrefresh s') else 0)"
    "bitmap_empty (bitmap_xor (feat s') (hw_feat s')) G10_FEAT_MAX"
    "mode_vrefresh pmode = hw_vrefresh s'"
    "sint (auto_mode_vrefresh s') = hw_idle_vrefresh s'"
proof -
  obtain u3 s3 where upf: "nt37290_update_panel_feat
       (nt37290_update_min_idle_vrefresh s pmode d
          \<lparr>feat := (if idle_active_of (nt37290_update_min_idle_vrefresh s pmode d) pmode
                     then set_bit G10_FEAT_FRAME_AUTO (set_bit G10_FEAT_EARLY_EXIT (feat s))
                     else unset_bit G10_FEAT_FRAME_AUTO
                            (unset_bit G10_FEAT_EARLY_EXIT (feat s)))\<rparr>)
       (Some pmode) (is_lp_mode cur) = Some (u3, s3)"
    using update_panel_feat_returns by blast
  note post = update_panel_feat_post [OF upf]
  from change_frequency_unfold [OF cur upf] cf
  have s': "s' = (if u3 then (\<lambda>t. t\<lparr>base := (base t)\<lparr>bl_state_changed :=
                                       Suc (bl_state_changed (base t))\<rparr>\<rparr>)
               else (\<lambda>t. t))
              (s3\<lparr>base := (base s3)\<lparr>panel_idle_vrefresh :=
                   (if self_refresh_active (base s3)
                    then word_of_int (hw_idle_vrefresh s3) else 0)\<rparr>\<rparr>)"
    by simp
  show "feat s' = (if idle_active_of (nt37290_update_min_idle_vrefresh s pmode d) pmode
                     then set_bit G10_FEAT_FRAME_AUTO (set_bit G10_FEAT_EARLY_EXIT (feat s))
                     else unset_bit G10_FEAT_FRAME_AUTO
                            (unset_bit G10_FEAT_EARLY_EXIT (feat s)))"
    using post(1) by (simp add: s')
  show "auto_mode_vrefresh s' = auto_mode_vrefresh (nt37290_update_min_idle_vrefresh s pmode d)"
    using post(2) by (simp add: s')
  show "delayed_idle s' = delayed_idle (nt37290_update_min_idle_vrefresh s pmode d)"
    using post(3) by (simp add: s')
  show "current_mode (base s') = current_mode (base s)"
    using post(4) by (simp add: s' update_min_idle_fields)
  show "min_vrefresh (base s') = min_vrefresh (base s)"
    using post(5) by (simp add: s' update_min_idle_fields)
  show "hbm_on (base s') = hbm_on (base s)"
    using post(6) by (simp add: s' update_min_idle_fields)
  show "dimming_on (base s') = dimming_on (base s)"
    using post(7) by (simp add: s' update_min_idle_fields)
  show "panel_idle_enabled (base s') = panel_idle_enabled (base s)"
    using post(8) by (simp add: s' update_min_idle_fields)
  show "idle_delay_ms (base s') = idle_delay_ms (base s)"
    using post(9) by (simp add: s' update_min_idle_fields)
  show "self_refresh_active (base s') = self_refresh_active (base s)"
    using post(10) by (simp add: s' update_min_idle_fields)
  show "panel_idle_vrefresh (base s') =
       (if self_refresh_active (base s) then word_of_int (hw_idle_vrefresh s') else 0)"
    using post(10) by (simp add: s' update_min_idle_fields)
  show "bitmap_empty (bitmap_xor (feat s') (hw_feat s')) G10_FEAT_MAX"
    using post(12) by (simp add: s')
  show "mode_vrefresh pmode = hw_vrefresh s'"
    using post(13) by (simp add: s')
  show "sint (auto_mode_vrefresh s') = hw_idle_vrefresh s'"
    using post(14) by (simp add: s')
qed

section \<open>The idle-rate resolver: tiers and the idle delay\<close>

text \<open>
  C1. For every panel state, requested mode and idle-time reading, the idle rate that
  \<^verbatim>\<open>nt37290_update_min_idle_vrefresh\<close> stores is one of 0, 10, 30 and 60; when it is not
  0, it is the tier of \<^verbatim>\<open>min_vrefresh\<close> and strictly below the refresh rate of the
  requested mode. The tier is chosen exactly as the table says: the bucketing step gives 0
  when \<^verbatim>\<open>min_vrefresh\<close> is 0, auto mode is not allowed or the mode does not support
  idling, and otherwise 10 for at most 10, 30 for at most 30, 60 for at most 60 and 0 above
  60. The stored rate is that tier unless the tier is not below the target rate or the
  idle delay suppresses it, and then it is 0; so with auto mode allowed, no delay pending
  and a target rate above the tier, a nonzero \<^verbatim>\<open>min_vrefresh\<close> of at most 10 stores 10, one in
  11..30 stores 30, one in 31..60 stores 60, and one above 60 stores 0.
\<close>

theorem update_min_idle_vrefresh_tier:
  "uint (auto_mode_vrefresh (nt37290_update_min_idle_vrefresh spanel pmode d)) \<in> {0, 10, 30, 60} \<and>
   (auto_mode_vrefresh (nt37290_update_min_idle_vrefresh spanel pmode d) \<noteq> 0 \<longrightarrow>
      uint (auto_mode_vrefresh (nt37290_update_min_idle_vrefresh spanel pmode d)) =
        spec_bucket_tier (min_vrefresh (base spanel)) \<and>
      uint (auto_mode_vrefresh (nt37290_update_min_idle_vrefresh spanel pmode d)) <
        mode_vrefresh pmode) \<and>
   bucket_idle_vrefresh (base spanel) pmode =
     (if min_vrefresh (base spanel) = 0 \<or> hbm_on (base spanel) \<or> dimming_on (base spanel) \<or>
         \<not> panel_idle_enabled (base spanel) \<or> idle_mode pmode = IDLE_MODE_UNSUPPORTED
      then 0
      else if min_vrefresh (base spanel) \<le> 10 then 10
      else if min_vrefresh (base spanel) \<le> 30 then 30
      else if min_vrefresh (base spanel) \<le> 60 then 60
      else 0) \<and>
   uint (auto_mode_vrefresh (nt37290_update_min_idle_vrefresh spanel pmode d)) =
     (if min_vrefresh (base spanel) = 0 \<or> hbm_on (base spanel) \<or> dimming_on (base spanel) \<or>
         \<not> panel_idle_enabled (base spanel) \<or> idle_mode pmode = IDLE_MODE_UNSUPPORTED
      then 0
      else if mode_vrefresh pmode \<le> spec_bucket_tier (min_vrefresh (base spanel)) then 0
      else if idle_delay_ms (base spanel) \<noteq> 0 \<and> d < idle_delay_ms (base spanel) then 0
      else spec_bucket_tier (min_vrefresh (base spanel))) \<and>
   (min_vrefresh (base spanel) \<noteq> 0 \<and> \<not> hbm_on (base spanel) \<and> \<not> dimming_on (base spanel) \<and>
    panel_idle_enabled (base spanel) \<and> idle_mode pmode \<noteq> IDLE_MODE_UNSUPPORTED \<and>
    \<not> (idle_delay_ms (base spanel) \<noteq> 0 \<and> d < idle_delay_ms (base spanel)) \<longrightarrow>
      (min_vrefresh (base spanel) \<le> 10 \<and> 10 < mode_vrefresh pmode \<longrightarrow>
         auto_mode_vrefresh (nt37290_update_min_idle_vrefresh spanel pmode d) = 10) \<and>
      (10 < min_vrefresh (base spanel) \<and> min_vrefresh (base spanel) \<le> 30 \<and>
       30 < mode_vrefresh pmode \<longrightarrow>
         auto_mode_vrefresh (nt37290_update_min_idle_vrefresh spanel pmode d) = 30) \<and>
      (30 < min_vrefresh (base spanel) \<and> min_vrefresh (base spanel) \<le> 60 \<and>
       60 < mode_vrefresh pmode \<longrightarrow>
         auto_mode_vrefresh (nt37290_update_min_idle_vrefresh spanel pmode d) = 60) \<and>
      (60 < min_vrefresh (base spanel) \<longrightarrow>
         auto_mode_vrefresh (nt37290_update_min_idle_vrefresh spanel pmode d) = 0))"
proof -
  have A: "uint (auto_mode_vrefresh (nt37290_update_min_idle_vrefresh spanel pmode d)) \<in>
        {0, 10, 30, 60} \<and>
      (auto_mode_vrefresh (nt37290_update_min_idle_vrefresh spanel pmode d) \<noteq> 0 \<longrightarrow>
        uint (auto_mode_vrefresh (nt37290_update_min_idle_vrefresh spanel pmode d)) =
          spec_bucket_tier (min_vrefresh (base spanel)) \<and>
        uint (auto_mode_vrefresh (nt37290_update_min_idle_vrefresh spanel pmode d)) <
          mode_vrefresh pmode)"
    using capped_cases [of "base spanel" pmode] auto_mode_cases [of spanel pmode d]
      spec_bucket_tier_range [of "min_vrefresh (base spanel)"]
    by auto
  have B: "bucket_idle_vrefresh (base spanel) pmode =
     (if min_vrefresh (base spanel) = 0 \<or> hbm_on (base spanel) \<or> dimming_on (base spanel) \<or>
         \<not> panel_idle_enabled (base spanel) \<or> idle_mode pmode = IDLE_MODE_UNSUPPORTED
      then 0
      else if min_vrefresh (base spanel) \<le> 10 then 10
      else if min_vrefresh (base spanel) \<le> 30 then 30
      else if min_vrefresh (base spanel) \<le> 60 then 60
      else 0)"
    by (simp add: bucket_idle_vrefresh_def is_auto_mode_allowed_def Let_def)
  note C = resolved_exact [of spanel pmode d]
  have D: "min_vrefresh (base spanel) \<noteq> 0 \<and> \<not> hbm_on (base spanel) \<and> \<not> dimming_on (base spanel) \<and>
    panel_idle_enabled (base spanel) \<and> idle_mode pmode \<noteq> IDLE_MODE_UNSUPPORTED \<and>
    \<not> (idle_delay_ms (base spanel) \<noteq> 0 \<and> d < idle_delay_ms (base spanel)) \<longrightarrow>
      (min_vrefresh (base spanel) \<le> 10 \<and> 10 < mode_vrefresh pmode \<longrightarrow>
         auto_mode_vrefresh (nt37290_update_min_idle_vrefresh spanel pmode d) = 10) \<and>
      (10 < min_vrefresh (base spanel) \<and> min_vrefresh (base spanel) \<le> 30 \<and>
       30 < mode_vrefresh pmode \<longrightarrow>
         auto_mode_vrefresh (nt37290_update_min_idle_vrefresh spanel pmode d) = 30) \<and>
      (30 < min_vrefresh (base spanel) \<and> min_vrefresh (base spanel) \<le> 60 \<and>
       60 < mode_vrefresh pmode \<longrightarrow>
         auto_mode_vrefresh (nt37290_update_min_idle_vrefresh spanel pmode d) = 60) \<and>
      (60 < min_vrefresh (base spanel) \<longrightarrow>
         auto_mode_vrefresh (nt37290_update_min_idle_vrefresh spanel pmode d) = 0)"
    by (simp add: nt37290_update_min_idle_vrefresh_def capped_idle_vrefresh_def B Let_def)
  from A B C D show ?thesis by blast
qed


theorem update_min_idle_vrefresh_tier_witness:
  "auto_mode_vrefresh (nt37290_update_min_idle_vrefresh example_panel nt37290_mode_120 0) = 10 \<and>
   auto_mode_vrefresh (nt37290_update_min_idle_vrefresh
     (example_panel\<lparr>base := example_base\<lparr>min_vrefresh := 25\<rparr>\<rparr>) nt37290_mode_120 0) = 30 \<and>
   auto_mode_vrefresh (nt37290_update_min_idle_vrefresh
     (example_panel\<lparr>base := example_base\<lparr>min_vrefresh := 45\<rparr>\<rparr>) nt37290_mode_120 0) = 60 \<and>
   auto_mode_vrefresh (nt37290_update_min_idle_vrefresh
     (example_panel\<lparr>base := example_base\<lparr>min_vrefresh := 90\<rparr>\<rparr>) nt37290_mode_120 0) = 0 \<and>
   uint (auto_mode_vrefresh (nt37290_update_min_idle_vrefresh example_panel nt37290_mode_120 0)) =
     spec_bucket_tier (min_vrefresh (base example_panel)) \<and>
   uint (auto_mode_vrefresh (nt37290_update_min_idle_vrefresh example_panel nt37290_mode_120 0)) <
     mode_vrefresh nt37290_mode_120"
proof -
  have m: "mode_vrefresh nt37290_mode_120 = 120"
    "idle_mode nt37290_mode_120 \<noteq> IDLE_MODE_UNSUPPORTED"
    by (simp_all add: example_defs)
  have b: "base example_panel = example_base"
    "base (example_panel\<lparr>base := example_base\<lparr>min_vrefresh := 25\<rparr>\<rparr>) =
       example_base\<lparr>min_vrefresh := 25\<rparr>"
    "base (example_panel\<lparr>base := example_base\<lparr>min_vrefresh := 45\<rparr>\<rparr>) =
       example_base\<lparr>min_vrefresh := 45\<rparr>"
    "base (example_panel\<lparr>base := example_base\<lparr>min_vrefresh := 90\<rparr>\<rparr>) =
       example_base\<lparr>min_vrefresh := 90\<rparr>"
    by (simp_all add: example_panel_def nt37290_panel_probe_def)
  have e: "min_vrefresh example_base = 10" "\<not> hbm_on example_base" "\<not> dimming_on example_base"
    "panel_idle_enabled example_base" "idle_delay_ms example_base = 0"
    by (simp_all add: example_base_def)
  have t10: "auto_mode_vrefresh
      (nt37290_update_min_idle_vrefresh example_panel nt37290_mode_120 0) = 10"
    using update_min_idle_vrefresh_tier [of example_panel nt37290_mode_120 0] m b e by simp
  have t30: "auto_mode_vrefresh (nt37290_update_min_idle_vrefresh
      (example_panel\<lparr>base := example_base\<lparr>min_vrefresh := 25\<rparr>\<rparr>) nt37290_mode_120 0) = 30"
    using update_min_idle_vrefresh_tier [of "example_panel\<lparr>base := example_base\<lparr>min_vrefresh := 25\<rparr>\<rparr>"
        nt37290_mode_120 0] m b e by simp
  have t60: "auto_mode_vrefresh (nt37290_update_min_idle_vrefresh
      (example_panel\<lparr>base := example_base\<lparr>min_vrefresh := 45\<rparr>\<rparr>) nt37290_mode_120 0) = 60"
    using update_min_idle_vrefresh_tier [of "example_panel\<lparr>base := example_base\<lparr>min_vrefresh := 45\<rparr>\<rparr>"
        nt37290_mode_120 0] m b e by simp
  have t0: "auto_mode_vrefresh (nt37290_update_min_idle_vrefresh
      (example_panel\<lparr>base := example_base\<lparr>min_vrefresh := 90\<rparr>\<rparr>) nt37290_mode_120 0) = 0"
    using update_min_idle_vrefresh_tier [of "example_panel\<lparr>base := example_base\<lparr>min_vrefresh := 90\<rparr>\<rparr>"
        nt37290_mode_120 0] m b e by simp
  have nz: "auto_mode_vrefresh
      (nt37290_update_min_idle_vrefresh example_panel nt37290_mode_120 0) \<noteq> 0"
    using t10 by simp
  from update_min_idle_vrefresh_tier [of example_panel nt37290_mode_120 0] nz t10 t30 t60 t0
  show ?thesis by blast
qed

text \<open>
  C4. Let the idle rate that reaches the delay check (line 428) be nonzero, that is, a tier
  was chosen and it is below the target rate. If an idle delay is configured and the idle
  time is strictly less than it, the stored idle rate is 0 and \<^verbatim>\<open>delayed_idle\<close> is set;
  otherwise \<^verbatim>\<open>delayed_idle\<close> is cleared and the stored rate is the chosen tier. With a
  delay of 50 ms, an idle time of 30 ms gives the first outcome and 51 ms the second.
\<close>

theorem update_min_idle_vrefresh_delay:
  assumes "capped_idle_vrefresh (base spanel) pmode \<noteq> 0"
  shows "(idle_delay_ms (base spanel) \<noteq> 0 \<and> d < idle_delay_ms (base spanel) \<longrightarrow>
            auto_mode_vrefresh (nt37290_update_min_idle_vrefresh spanel pmode d) = 0 \<and>
            delayed_idle (nt37290_update_min_idle_vrefresh spanel pmode d)) \<and>
         (\<not> (idle_delay_ms (base spanel) \<noteq> 0 \<and> d < idle_delay_ms (base spanel)) \<longrightarrow>
            uint (auto_mode_vrefresh (nt37290_update_min_idle_vrefresh spanel pmode d)) =
              bucket_idle_vrefresh (base spanel) pmode \<and>
            auto_mode_vrefresh (nt37290_update_min_idle_vrefresh spanel pmode d) \<noteq> 0 \<and>
            \<not> delayed_idle (nt37290_update_min_idle_vrefresh spanel pmode d)) \<and>
         (idle_delay_ms (base spanel) = 50 \<longrightarrow>
            auto_mode_vrefresh (nt37290_update_min_idle_vrefresh spanel pmode 30) = 0 \<and>
            delayed_idle (nt37290_update_min_idle_vrefresh spanel pmode 30) \<and>
            uint (auto_mode_vrefresh (nt37290_update_min_idle_vrefresh spanel pmode 51)) =
              bucket_idle_vrefresh (base spanel) pmode \<and>
            auto_mode_vrefresh (nt37290_update_min_idle_vrefresh spanel pmode 51) \<noteq> 0 \<and>
            \<not> delayed_idle (nt37290_update_min_idle_vrefresh spanel pmode 51))"
proof -
  have eq: "capped_idle_vrefresh (base spanel) pmode = bucket_idle_vrefresh (base spanel) pmode"
    using assms capped_cases [of "base spanel" pmode] by auto
  have rng: "capped_idle_vrefresh (base spanel) pmode \<in> {10, 30, 60}"
    using assms capped_range [of "base spanel" pmode] by auto
  have u: "uint (word_of_int (capped_idle_vrefresh (base spanel) pmode) :: u32) =
      capped_idle_vrefresh (base spanel) pmode"
    using rng by (intro uint_tier) auto
  have nz: "(word_of_int (capped_idle_vrefresh (base spanel) pmode) :: u32) \<noteq> 0"
    using rng by auto
  show ?thesis
    using assms u nz eq
    by (simp add: nt37290_update_min_idle_vrefresh_def Let_def)
qed

theorem update_min_idle_vrefresh_delay_witness:
  "capped_idle_vrefresh (base idle_delay_panel) nt37290_mode_120 \<noteq> 0 \<and>
   idle_delay_ms (base idle_delay_panel) = 50 \<and>
   auto_mode_vrefresh (nt37290_update_min_idle_vrefresh idle_delay_panel nt37290_mode_120 30) = 0 \<and>
   delayed_idle (nt37290_update_min_idle_vrefresh idle_delay_panel nt37290_mode_120 30) \<and>
   uint (auto_mode_vrefresh (nt37290_update_min_idle_vrefresh idle_delay_panel nt37290_mode_120 51))
     = 10 \<and>
   \<not> delayed_idle (nt37290_update_min_idle_vrefresh idle_delay_panel nt37290_mode_120 51)"
proof -
  have h: "capped_idle_vrefresh (base idle_delay_panel) nt37290_mode_120 \<noteq> 0"
    by (simp add: model_defs example_defs Let_def)
  have d: "idle_delay_ms (base idle_delay_panel) = 50"
    by (simp add: example_defs)
  have b: "bucket_idle_vrefresh (base idle_delay_panel) nt37290_mode_120 = 10"
    by (simp add: model_defs example_defs Let_def)
  from update_min_idle_vrefresh_delay [OF h, of 0] h d b show ?thesis by simp
qed

section \<open>The TE2 option and timing\<close>

text \<open>
  C6. The TE2 option of \<^verbatim>\<open>nt37290_get_te2_option\<close> is Fixed exactly when there is a
  current mode and either that mode is a low-power mode or the committed idle rate is above
  0 and strictly below 30; in every other case it is Changeable, in particular without a
  current mode and for the idle rates 0, 30 and 60 outside low-power mode. An idle rate of
  20 outside low-power mode gives Fixed.
\<close>

theorem get_te2_option_fixed_iff:
  "(nt37290_get_te2_option spanel = NT37290_TE2_FIXED \<longleftrightarrow>
      (\<exists>cur. current_mode (base spanel) = Some cur \<and>
         (is_lp_mode cur \<or>
          (0 < hw_idle_vrefresh spanel \<and> hw_idle_vrefresh spanel < NT37290_TE2_MIN_RATE)))) \<and>
   (nt37290_get_te2_option spanel \<noteq> NT37290_TE2_FIXED \<longrightarrow>
      nt37290_get_te2_option spanel = NT37290_TE2_CHANGEABLE) \<and>
   NT37290_TE2_FIXED \<noteq> NT37290_TE2_CHANGEABLE \<and>
   NT37290_TE2_MIN_RATE = 30 \<and>
   (current_mode (base spanel) = None \<longrightarrow>
      nt37290_get_te2_option spanel = NT37290_TE2_CHANGEABLE) \<and>
   (\<forall>cur. current_mode (base spanel) = Some cur \<and> \<not> is_lp_mode cur \<longrightarrow>
      (hw_idle_vrefresh spanel = 20 \<longrightarrow> nt37290_get_te2_option spanel = NT37290_TE2_FIXED) \<and>
      (hw_idle_vrefresh spanel \<in> {0, 30, 60} \<longrightarrow>
         nt37290_get_te2_option spanel = NT37290_TE2_CHANGEABLE))"
  by (auto simp add: nt37290_get_te2_option_def NT37290_TE2_FIXED_def
      NT37290_TE2_CHANGEABLE_def NT37290_TE2_MIN_RATE_def split: option.splits)

theorem get_te2_option_fixed_iff_witness:
  "nt37290_get_te2_option (example_panel\<lparr>hw_idle_vrefresh := 20\<rparr>) = NT37290_TE2_FIXED \<and>
   nt37290_get_te2_option (example_panel\<lparr>hw_idle_vrefresh := 60\<rparr>) = NT37290_TE2_CHANGEABLE"
proof -
  have m: "current_mode (base (example_panel\<lparr>hw_idle_vrefresh := 20\<rparr>)) = Some nt37290_mode_120"
    "current_mode (base (example_panel\<lparr>hw_idle_vrefresh := 60\<rparr>)) = Some nt37290_mode_120"
    "\<not> is_lp_mode nt37290_mode_120"
    by (simp_all add: model_defs example_defs)
  have v: "hw_idle_vrefresh (example_panel\<lparr>hw_idle_vrefresh := 20\<rparr>) = 20"
    "hw_idle_vrefresh (example_panel\<lparr>hw_idle_vrefresh := 60\<rparr>) \<in> {0, 30, 60}"
    by simp_all
  from get_te2_option_fixed_iff [of "example_panel\<lparr>hw_idle_vrefresh := 20\<rparr>"]
    get_te2_option_fixed_iff [of "example_panel\<lparr>hw_idle_vrefresh := 60\<rparr>"] m v
  show ?thesis by blast
qed

text \<open>
  C7. In \<^verbatim>\<open>nt37290_update_te2\<close>: when the timing source returns 0, the batch is sent
  with the low bytes of the returned rising and falling edges; when it returns
  \<^verbatim>\<open>-EAGAIN\<close>, the same batch is sent with rising 0 and falling 0x30 and nothing is
  reported; for any other return value no command is queued or sent, so the timing in the
  panel stays as it was.
\<close>

theorem update_te2_timing_source:
  "(ret = 0 \<longrightarrow>
      dcs_sent (base (nt37290_update_te2 spanel ret timing)) =
        dcs_sent (base spanel) @
          [dcs_queue (base spanel) @
            [[0xF0, 0x55, 0xAA, 0x52, 0x08, 0x03],
             [0xC3, nt37290_get_te2_option spanel],
             [0x6F, 0x04],
             [0xC3, nt37290_get_te2_option spanel],
             [0xC4, 0x00, 0x00, 0x00, 0x00, 0x00, ucast (rising_edge timing AND 0xFF), 0x10,
              ucast (falling_edge timing AND 0xFF)]]] \<and>
      dcs_queue (base (nt37290_update_te2 spanel ret timing)) = [] \<and>
      warn_log (base (nt37290_update_te2 spanel ret timing)) = warn_log (base spanel)) \<and>
   (ret = - EAGAIN \<longrightarrow>
      dcs_sent (base (nt37290_update_te2 spanel ret timing)) =
        dcs_sent (base spanel) @
          [dcs_queue (base spanel) @
            [[0xF0, 0x55, 0xAA, 0x52, 0x08, 0x03],
             [0xC3, nt37290_get_te2_option spanel],
             [0x6F, 0x04],
             [0xC3, nt37290_get_te2_option spanel],
             [0xC4, 0x00, 0x00, 0x00, 0x00, 0x00, 0x00, 0x10, 0x30]]] \<and>
      dcs_queue (base (nt37290_update_te2 spanel ret timing)) = [] \<and>
      warn_log (base (nt37290_update_te2 spanel ret timing)) = warn_log (base spanel)) \<and>
   (ret \<noteq> 0 \<and> ret \<noteq> - EAGAIN \<longrightarrow>
      dcs_sent (base (nt37290_update_te2 spanel ret timing)) = dcs_sent (base spanel) \<and>
      dcs_queue (base (nt37290_update_te2 spanel ret timing)) = dcs_queue (base spanel) \<and>
      warn_log (base (nt37290_update_te2 spanel ret timing)) =
        warn_log (base spanel) @ [Failed_to_get_timing])"
  by (simp add: nt37290_update_te2_def te2_cmds_def run_def dcs_buf_add_def
      dcs_buf_add_and_flush_def dev_warn_def EAGAIN_def Let_def)

theorem update_te2_timing_source_witness:
  "dcs_sent (base (nt37290_update_te2 example_panel 0 \<lparr>rising_edge = 5, falling_edge = 48\<rparr>)) =
     [[[0xF0, 0x55, 0xAA, 0x52, 0x08, 0x03], [0xC3, 0x02], [0x6F, 0x04], [0xC3, 0x02],
       [0xC4, 0x00, 0x00, 0x00, 0x00, 0x00, 0x05, 0x10, 0x30]]] \<and>
   dcs_sent (base (nt37290_update_te2 example_panel (- 11) \<lparr>rising_edge = 5, falling_edge = 48\<rparr>)) =
     [[[0xF0, 0x55, 0xAA, 0x52, 0x08, 0x03], [0xC3, 0x02], [0x6F, 0x04], [0xC3, 0x02],
       [0xC4, 0x00, 0x00, 0x00, 0x00, 0x00, 0x00, 0x10, 0x30]]] \<and>
   dcs_sent (base (nt37290_update_te2 example_panel (- 22) \<lparr>rising_edge = 5, falling_edge = 48\<rparr>)) =
     [] \<and>
   dcs_queue (base (nt37290_update_te2 example_panel (- 22) \<lparr>rising_edge = 5, falling_edge = 48\<rparr>)) =
     []"
proof -
  have o: "nt37290_get_te2_option example_panel = 0x02"
    by (simp add: nt37290_get_te2_option_def NT37290_TE2_CHANGEABLE_def NT37290_TE2_MIN_RATE_def
        model_defs example_defs)
  have e: "(- 11 :: int) = - EAGAIN" "(- 22 :: int) \<noteq> 0" "(- 22 :: int) \<noteq> - EAGAIN"
    by (simp_all add: EAGAIN_def)
  have s: "dcs_sent (base example_panel) = []" "dcs_queue (base example_panel) = []"
    by (simp_all add: model_defs example_defs)
  from update_te2_timing_source [of 0 example_panel "\<lparr>rising_edge = 5, falling_edge = 48\<rparr>"]
    update_te2_timing_source [of "- 11" example_panel "\<lparr>rising_edge = 5, falling_edge = 48\<rparr>"]
    update_te2_timing_source [of "- 22" example_panel "\<lparr>rising_edge = 5, falling_edge = 48\<rparr>"]
    o e s
  show ?thesis by simp
qed

section \<open>The frequency orchestrator: coupling, repetition, reported idle rate\<close>

text \<open>
  C2. Whenever \<^verbatim>\<open>nt37290_change_frequency\<close> is called with a current mode set (it reads
  the current mode first), it returns, and afterwards the EarlyExit and FrameAuto bits of
  the desired feature set are equal: both are set when idling is active for the call and
  both are clear otherwise.
\<close>

theorem change_frequency_feat_coupled:
  assumes "current_mode (base spanel) = Some cur"
  shows "\<exists>updated s'. nt37290_change_frequency spanel pmode d = Some (updated, s') \<and>
     bit (feat s') G10_FEAT_EARLY_EXIT = bit (feat s') G10_FEAT_FRAME_AUTO \<and>
     (idle_active_of (nt37290_update_min_idle_vrefresh spanel pmode d) pmode \<longrightarrow>
        bit (feat s') G10_FEAT_EARLY_EXIT \<and> bit (feat s') G10_FEAT_FRAME_AUTO) \<and>
     (\<not> idle_active_of (nt37290_update_min_idle_vrefresh spanel pmode d) pmode \<longrightarrow>
        \<not> bit (feat s') G10_FEAT_EARLY_EXIT \<and> \<not> bit (feat s') G10_FEAT_FRAME_AUTO)"
proof -
  obtain u s' where cf: "nt37290_change_frequency spanel pmode d = Some (u, s')"
    using change_frequency_returns [OF assms] by blast
  from change_frequency_post(1) [OF assms cf] cf show ?thesis
    by (auto simp add: feat_bits_after)
qed

theorem change_frequency_feat_coupled_witness:
  "current_mode (base example_panel) = Some nt37290_mode_120 \<and>
   idle_active_of (nt37290_update_min_idle_vrefresh example_panel nt37290_mode_120 0)
     nt37290_mode_120 \<and>
   (\<exists>updated s'. nt37290_change_frequency example_panel nt37290_mode_120 0 = Some (updated, s') \<and>
      bit (feat s') G10_FEAT_EARLY_EXIT \<and> bit (feat s') G10_FEAT_FRAME_AUTO)"
proof -
  have h: "current_mode (base example_panel) = Some nt37290_mode_120"
    by (simp add: model_defs example_defs)
  have a: "idle_active_of (nt37290_update_min_idle_vrefresh example_panel nt37290_mode_120 0)
      nt37290_mode_120"
    by (simp add: model_defs example_defs Let_def)
  from change_frequency_feat_coupled [OF h, of nt37290_mode_120 0] h a show ?thesis by blast
qed

text \<open>
  C3, as the code has it. Let the current mode be set. If it is not a low-power mode and
  the idle-delay check comes out the same at both calls (as it does for the same idle-time
  reading), then \<^verbatim>\<open>nt37290_change_frequency\<close> called a second time with the same mode
  returns false and leaves the whole panel state as the first call left it: nothing is
  queued or sent, and \<^verbatim>\<open>hw_feat\<close>, \<^verbatim>\<open>hw_vrefresh\<close> and \<^verbatim>\<open>hw_idle_vrefresh\<close>
  keep their values. If the current mode is a low-power mode, the flush is forced and both
  calls return true.
\<close>

theorem change_frequency_idempotent:
  assumes cur: "current_mode (base spanel) = Some cur"
  shows "(\<not> is_lp_mode cur \<and>
          (d1 < idle_delay_ms (base spanel)) = (d2 < idle_delay_ms (base spanel)) \<longrightarrow>
            (\<exists>updated s1. nt37290_change_frequency spanel pmode d1 = Some (updated, s1) \<and>
               nt37290_change_frequency s1 pmode d2 = Some (False, s1))) \<and>
         (is_lp_mode cur \<longrightarrow>
            (\<exists>s1 s2. nt37290_change_frequency spanel pmode d1 = Some (True, s1) \<and>
               nt37290_change_frequency s1 pmode d2 = Some (True, s2)))"
proof (intro conjI impI)
  assume "\<not> is_lp_mode cur \<and>
      (d1 < idle_delay_ms (base spanel)) = (d2 < idle_delay_ms (base spanel))"
  then have nlp: "\<not> is_lp_mode cur"
    and same: "(d1 < idle_delay_ms (base spanel)) = (d2 < idle_delay_ms (base spanel))"
    by simp_all
  obtain u s1 where cf1: "nt37290_change_frequency spanel pmode d1 = Some (u, s1)"
    using change_frequency_returns [OF cur] by blast
  note post = change_frequency_post [OF cur cf1]
  have cur1: "current_mode (base s1) = Some cur"
    using post(4) cur by simp
  have same1: "(d2 < idle_delay_ms (base s1)) = (d1 < idle_delay_ms (base s1))"
    using same post(9) by simp
  have umi: "nt37290_update_min_idle_vrefresh s1 pmode d2 = s1"
    using update_min_idle_cong [OF post(5) post(6) post(7) post(8) post(9) same1, of pmode]
      post(2) post(3)
    by (intro update_min_idle_fixed) simp_all
  have ia: "idle_active_of s1 pmode =
      idle_active_of (nt37290_update_min_idle_vrefresh spanel pmode d1) pmode"
    using post(2) post(10) by (intro idle_active_of_cong) (simp_all add: update_min_idle_fields)
  have ft: "(if idle_active_of s1 pmode
             then set_bit G10_FEAT_FRAME_AUTO (set_bit G10_FEAT_EARLY_EXIT (feat s1))
             else unset_bit G10_FEAT_FRAME_AUTO (unset_bit G10_FEAT_EARLY_EXIT (feat s1))) =
            feat s1"
    unfolding ia post(1) by (simp add: feat_bits_idem)
  have upf: "nt37290_update_panel_feat
       (nt37290_update_min_idle_vrefresh s1 pmode d2
          \<lparr>feat := (if idle_active_of (nt37290_update_min_idle_vrefresh s1 pmode d2) pmode
                     then set_bit G10_FEAT_FRAME_AUTO (set_bit G10_FEAT_EARLY_EXIT (feat s1))
                     else unset_bit G10_FEAT_FRAME_AUTO
                            (unset_bit G10_FEAT_EARLY_EXIT (feat s1)))\<rparr>)
       (Some pmode) (is_lp_mode cur) =
       Some (False, s1\<lparr>base := (base s1)\<lparr>panel_idle_vrefresh := 0\<rparr>\<rparr>)"
    unfolding umi ft using nlp update_panel_feat_noop [OF post(12) post(13) post(14)]
    by simp
  have "nt37290_change_frequency s1 pmode d2 = Some (False, s1)"
    using change_frequency_unfold [OF cur1 upf] post(11) post(10)
    by simp
  with cf1 show "\<exists>updated s1. nt37290_change_frequency spanel pmode d1 = Some (updated, s1) \<and>
      nt37290_change_frequency s1 pmode d2 = Some (False, s1)"
    by blast
next
  assume lp: "is_lp_mode cur"
  obtain s1 where cf1: "nt37290_change_frequency spanel pmode d1 = Some (True, s1)"
    using change_frequency_lp [OF cur lp] by blast
  have cur1: "current_mode (base s1) = Some cur"
    using change_frequency_post(4) [OF cur cf1] cur by simp
  obtain s2 where "nt37290_change_frequency s1 pmode d2 = Some (True, s2)"
    using change_frequency_lp [OF cur1 lp] by blast
  with cf1 show "\<exists>s1 s2. nt37290_change_frequency spanel pmode d1 = Some (True, s1) \<and>
      nt37290_change_frequency s1 pmode d2 = Some (True, s2)"
    by blast
qed

theorem change_frequency_idempotent_witness:
  "current_mode (base example_panel) = Some nt37290_mode_120 \<and>
   \<not> is_lp_mode nt37290_mode_120 \<and>
   nt37290_change_frequency example_panel nt37290_mode_120 0 = Some (True, idle_committed_panel) \<and>
   nt37290_change_frequency idle_committed_panel nt37290_mode_120 0 =
     Some (False, idle_committed_panel) \<and>
   current_mode (base aod_panel) = Some nt37290_lp_mode \<and>
   is_lp_mode nt37290_lp_mode \<and>
   (\<exists>s1 s2. nt37290_change_frequency aod_panel nt37290_mode_120 0 = Some (True, s1) \<and>
      nt37290_change_frequency s1 nt37290_mode_120 0 = Some (True, s2))"
proof -
  have h: "current_mode (base example_panel) = Some nt37290_mode_120"
    "\<not> is_lp_mode nt37290_mode_120"
    by (simp_all add: model_defs example_defs)
  have a: "current_mode (base aod_panel) = Some nt37290_lp_mode"
    "is_lp_mode nt37290_lp_mode"
    by (simp_all add: model_defs example_defs aod_panel_def)
  have first: "nt37290_change_frequency example_panel nt37290_mode_120 0 =
      Some (True, idle_committed_panel)"
    by (simp add: model_defs example_defs Let_def feat_both_on)
  from change_frequency_idempotent [OF h(1), of 0 0 nt37290_mode_120]
    change_frequency_idempotent [OF a(1), of 0 0 nt37290_mode_120] first h a
  show ?thesis by simp
qed

text \<open>
  C3 as stated fails when the current mode is a low-power mode: the flush is then forced
  (\<^verbatim>\<open>was_lp_mode\<close> is passed as \<^verbatim>\<open>enforce\<close>), so a second call with the same mode
  and an unchanged state returns true again and sends the batch again.
\<close>

theorem change_frequency_twice_lp_counterexample:
  "nt37290_change_frequency aod_panel nt37290_mode_120 0 = Some (True, aod_panel_flushed) \<and>
   nt37290_change_frequency aod_panel_flushed nt37290_mode_120 0 =
     Some (True, aod_panel_flushed_twice) \<and>
   dcs_sent (base aod_panel_flushed_twice) \<noteq> dcs_sent (base aod_panel_flushed)"
  by (simp add: model_defs example_defs aod_panel_def aod_panel_flushed_def
      aod_panel_flushed_twice_def Let_def)

text \<open>
  C10. After every call of \<^verbatim>\<open>nt37290_change_frequency\<close> with a current mode set, the
  reported idle rate \<^verbatim>\<open>panel_idle_vrefresh\<close> is the committed idle rate
  \<^verbatim>\<open>hw_idle_vrefresh\<close> when self-refresh is active and 0 otherwise. The hardware-feature
  update inside it zeroes the reported rate on every path, also when it returns false
  because no flush was needed.
\<close>

theorem change_frequency_panel_idle_vrefresh:
  assumes cur: "current_mode (base spanel) = Some cur"
  shows "(\<exists>updated s'. nt37290_change_frequency spanel pmode d = Some (updated, s') \<and>
           panel_idle_vrefresh (base s') =
             (if self_refresh_active (base s') then word_of_int (hw_idle_vrefresh s') else 0) \<and>
           uint (panel_idle_vrefresh (base s')) =
             (if self_refresh_active (base s') then hw_idle_vrefresh s' else 0) \<and>
           self_refresh_active (base s') = self_refresh_active (base spanel)) \<and>
         (\<exists>u0 s0. nt37290_update_panel_feat spanel (Some pmode) enforce = Some (u0, s0) \<and>
           panel_idle_vrefresh (base s0) = 0)"
proof -
  obtain u s' where cf: "nt37290_change_frequency spanel pmode d = Some (u, s')"
    using change_frequency_returns [OF cur] by blast
  note post = change_frequency_post [OF cur cf]
  have "auto_mode_vrefresh s' \<in> {0, 10, 30, 60}"
    unfolding post(2) by (rule auto_mode_range)
  then have "hw_idle_vrefresh s' \<in> {0, 10, 30, 60}"
    unfolding post(14) [symmetric] by auto
  then have "uint (word_of_int (hw_idle_vrefresh s') :: u32) = hw_idle_vrefresh s'"
    by (rule uint_tier)
  then have A: "\<exists>updated s'. nt37290_change_frequency spanel pmode d = Some (updated, s') \<and>
           panel_idle_vrefresh (base s') =
             (if self_refresh_active (base s') then word_of_int (hw_idle_vrefresh s') else 0) \<and>
           uint (panel_idle_vrefresh (base s')) =
             (if self_refresh_active (base s') then hw_idle_vrefresh s' else 0) \<and>
           self_refresh_active (base s') = self_refresh_active (base spanel)"
    using cf post(10) post(11) by auto
  obtain u0 s0 where upf: "nt37290_update_panel_feat spanel (Some pmode) enforce = Some (u0, s0)"
    using update_panel_feat_returns by blast
  from update_panel_feat_post(11) [OF upf] upf A show ?thesis by blast
qed

theorem change_frequency_panel_idle_vrefresh_witness:
  "current_mode (base idle_committed_panel) = Some nt37290_mode_120 \<and>
   self_refresh_active (base idle_committed_panel) \<and>
   (\<exists>updated s'. nt37290_change_frequency idle_committed_panel nt37290_mode_120 0 =
        Some (updated, s') \<and>
      uint (panel_idle_vrefresh (base s')) = hw_idle_vrefresh s') \<and>
   (\<exists>s0. nt37290_update_panel_feat idle_committed_panel (Some nt37290_mode_120) False =
        Some (False, s0) \<and>
      panel_idle_vrefresh (base s0) = 0)"
proof -
  have h: "current_mode (base idle_committed_panel) = Some nt37290_mode_120"
    by (simp add: model_defs example_defs)
  have s: "self_refresh_active (base idle_committed_panel)"
    by (simp add: model_defs example_defs)
  have n: "\<exists>s0. nt37290_update_panel_feat idle_committed_panel (Some nt37290_mode_120) False =
      Some (False, s0)"
    by (simp add: model_defs example_defs Let_def)
  from change_frequency_panel_idle_vrefresh [OF h, of nt37290_mode_120 0 False] h s n
  show ?thesis by auto
qed

section \<open>The early-exit trigger\<close>

text \<open>
  C5. With the panel active, a current mode set and the EarlyExit feature on,
  \<^verbatim>\<open>nt37290_commit_done\<close> goes by the time since the last commit, in microseconds: below
  17000 (so at 16999) nothing is sent and nothing changes; from 17000 on, when no idle
  delay is configured or the time is at most 50000, the mode-set time is stamped and the
  single command 0x2C is sent; above 50000 (so at 50001) with an idle delay configured,
  the result is that of \<^verbatim>\<open>nt37290_change_frequency\<close> for the current mode, run after
  the mode-set time is stamped, and the lightweight command is not sent.
\<close>

theorem commit_done_early_exit:
  assumes act: "panel_active (base spanel)"
    and cur: "current_mode (base spanel) = Some pmode"
    and ee: "bit (feat spanel) G10_FEAT_EARLY_EXIT"
  shows "(ktime_to_us (ktime_sub now (last_commit_ts (base spanel))) < 17000 \<longrightarrow>
            nt37290_commit_done spanel now now_set d = Some spanel) \<and>
         (17000 \<le> ktime_to_us (ktime_sub now (last_commit_ts (base spanel))) \<and>
          (idle_delay_ms (base spanel) = 0 \<or>
           ktime_to_us (ktime_sub now (last_commit_ts (base spanel))) \<le> 50000) \<longrightarrow>
            nt37290_commit_done spanel now now_set d =
              Some (spanel\<lparr>base := (base spanel)
                      \<lparr>last_mode_set_ts := now_set,
                       dcs_sent := dcs_sent (base spanel) @ [dcs_queue (base spanel) @ [[0x2C]]],
                       dcs_queue := []\<rparr>\<rparr>)) \<and>
         (50000 < ktime_to_us (ktime_sub now (last_commit_ts (base spanel))) \<and>
          idle_delay_ms (base spanel) \<noteq> 0 \<longrightarrow>
            nt37290_commit_done spanel now now_set d =
              map_option snd (nt37290_change_frequency
                (spanel\<lparr>base := (base spanel)\<lparr>last_mode_set_ts := now_set\<rparr>\<rparr>) pmode d) \<and>
            nt37290_commit_done spanel now now_set d \<noteq> None)"
proof -
  have "\<exists>u s'. nt37290_change_frequency
      (spanel\<lparr>base := (base spanel)\<lparr>last_mode_set_ts := now_set\<rparr>\<rparr>) pmode d = Some (u, s')"
    using cur by (intro change_frequency_returns [where cur = pmode]) simp
  then have ret: "map_option snd (nt37290_change_frequency
      (spanel\<lparr>base := (base spanel)\<lparr>last_mode_set_ts := now_set\<rparr>\<rparr>) pmode d) \<noteq> None"
    by auto
  show ?thesis
    using assms ret
    by (auto simp add: nt37290_commit_done_def nt37290_trigger_early_exit_def Let_def
        EARLY_EXIT_THRESHOLD_US_def IDLE_DELAY_THRESHOLD_US_def dcs_write_table_def
        dcs_buf_add_and_flush_def stream_2c_def)
qed

theorem commit_done_early_exit_witness:
  "nt37290_commit_done idle_committed_panel 16999999 16999999 0 = Some idle_committed_panel \<and>
   nt37290_commit_done idle_committed_panel 17000000 17000000 0 =
     Some (idle_committed_panel\<lparr>base := (base idle_committed_panel)
             \<lparr>last_mode_set_ts := 17000000,
              dcs_sent := [idle_10_batch, [[0x2C]]]\<rparr>\<rparr>) \<and>
   nt37290_commit_done idle_delay_panel 50001000 50001000 0 =
     map_option snd (nt37290_change_frequency
       (idle_delay_panel\<lparr>base := (base idle_delay_panel)\<lparr>last_mode_set_ts := 50001000\<rparr>\<rparr>)
       nt37290_mode_120 0)"
proof -
  have h: "panel_active (base idle_committed_panel)"
    "current_mode (base idle_committed_panel) = Some nt37290_mode_120"
    "bit (feat idle_committed_panel) G10_FEAT_EARLY_EXIT"
    by (simp_all add: model_defs example_defs feat_both_on)
  have hd: "panel_active (base idle_delay_panel)"
    "current_mode (base idle_delay_panel) = Some nt37290_mode_120"
    "bit (feat idle_delay_panel) G10_FEAT_EARLY_EXIT"
    by (simp_all add: model_defs example_defs feat_both_on)
  have t: "ktime_to_us (ktime_sub 16999999 (last_commit_ts (base idle_committed_panel))) = 16999"
    "ktime_to_us (ktime_sub 17000000 (last_commit_ts (base idle_committed_panel))) = 17000"
    "ktime_to_us (ktime_sub 50001000 (last_commit_ts (base idle_delay_panel))) = 50001"
    by (simp_all add: ktime_to_us_def ktime_sub_def signed_divide_int_def example_defs)
  have c: "idle_delay_ms (base idle_committed_panel) = 0"
    "idle_delay_ms (base idle_delay_panel) \<noteq> 0"
    "dcs_sent (base idle_committed_panel) = [idle_10_batch]"
    "dcs_queue (base idle_committed_panel) = []"
    by (simp_all add: example_defs)
  from commit_done_early_exit [OF h, of 16999999 16999999 0]
    commit_done_early_exit [OF h, of 17000000 17000000 0]
    commit_done_early_exit [OF hd, of 50001000 50001000 0] t c
  show ?thesis by simp
qed

section \<open>The command-batch builder and unsupported combinations\<close>

text \<open>
  C8, as the code has it. Whenever \<^verbatim>\<open>nt37290_update_panel_feat\<close> builds a batch (the
  flush is forced or something differs from the committed state) for a combination without
  a register payload, namely FrameAuto clear with a refresh rate other than 60 and other
  than 120, or FrameAuto set with an idle rate not among 10, 30 and 60, it reports one
  warning, leaves out only the auto-frame-insertion write 0xBA, still sends the frequency
  mode, early-exit, command-page, frame-advance 0x2C and TE-shift commands in one batch,
  returns true and updates the committed state. At 120 Hz with FrameAuto clear it reports
  nothing and sends the frequency mode and the TE timing only.
\<close>

theorem update_panel_feat_unsupported:
  assumes flush: "enforce \<or>
      \<not> (bitmap_empty (bitmap_xor (feat spanel) (hw_feat spanel)) G10_FEAT_MAX \<and>
         mode_vrefresh m = hw_vrefresh spanel \<and>
         sint (auto_mode_vrefresh spanel) = hw_idle_vrefresh spanel)"
  shows "((\<not> bit (feat spanel) G10_FEAT_FRAME_AUTO \<and>
            mode_vrefresh m \<noteq> 60 \<and> mode_vrefresh m \<noteq> 120) \<or>
          (bit (feat spanel) G10_FEAT_FRAME_AUTO \<and>
            sint (auto_mode_vrefresh spanel) \<notin> {10, 30, 60}) \<longrightarrow>
          (\<exists>s'. nt37290_update_panel_feat spanel (Some m) enforce = Some (True, s') \<and>
             hw_vrefresh s' = mode_vrefresh m \<and>
             hw_idle_vrefresh s' = sint (auto_mode_vrefresh spanel) \<and>
             hw_feat s' = feat spanel \<and>
             warn_log (base s') = warn_log (base spanel) @
               [if bit (feat spanel) G10_FEAT_FRAME_AUTO
                then Unsupported_idle_vrefresh_auto (sint (auto_mode_vrefresh spanel))
                else Unsupported_vrefresh_manual (mode_vrefresh m)] \<and>
             dcs_sent (base s') = dcs_sent (base spanel) @
               [dcs_queue (base spanel) @
                 [[0x2F, 0x00], [0x2F, 0x30],
                  [0x5A, of_bool (\<not> bit (feat spanel) G10_FEAT_EARLY_EXIT)],
                  cmd2_page0, [0x6F, 0x1C], [0x2C],
                  [0x44, 0x00, if mode_vrefresh m = 120 then 0x00 else 0x01]]] \<and>
             dcs_queue (base s') = [])) \<and>
         (\<not> bit (feat spanel) G10_FEAT_FRAME_AUTO \<and> mode_vrefresh m = 120 \<longrightarrow>
          (\<exists>s'. nt37290_update_panel_feat spanel (Some m) enforce = Some (True, s') \<and>
             hw_vrefresh s' = mode_vrefresh m \<and>
             hw_idle_vrefresh s' = sint (auto_mode_vrefresh spanel) \<and>
             hw_feat s' = feat spanel \<and>
             warn_log (base s') = warn_log (base spanel) \<and>
             dcs_sent (base s') = dcs_sent (base spanel) @
               [dcs_queue (base spanel) @ [[0x2F, 0x00], [0x44, 0x00, 0x00]]] \<and>
             dcs_queue (base s') = []))"
  using flush
  by (auto simp add: nt37290_update_panel_feat_def Let_def panel_feat_cmds_def run_def
      auto_frame_insertion_def dcs_buf_add_def dcs_buf_add_and_flush_def dev_warn_def)

theorem update_panel_feat_unsupported_witness:
  "\<not> bit (feat example_panel) G10_FEAT_FRAME_AUTO \<and>
   mode_vrefresh nt37290_lp_mode = 30 \<and>
   (\<exists>s'. nt37290_update_panel_feat example_panel (Some nt37290_lp_mode) True = Some (True, s') \<and>
      hw_vrefresh s' = 30 \<and>
      warn_log (base s') = [Unsupported_vrefresh_manual 30] \<and>
      dcs_sent (base s') =
        [[[0x2F, 0x00], [0x2F, 0x30], [0x5A, 0x01], [0xF0, 0x55, 0xAA, 0x52, 0x08, 0x00],
          [0x6F, 0x1C], [0x2C], [0x44, 0x00, 0x01]]]) \<and>
   mode_vrefresh nt37290_mode_120 = 120 \<and>
   (\<exists>s'. nt37290_update_panel_feat example_panel (Some nt37290_mode_120) True = Some (True, s') \<and>
      warn_log (base s') = [] \<and>
      dcs_sent (base s') = [[[0x2F, 0x00], [0x44, 0x00, 0x00]]])"
proof -
  have f: "\<not> bit (feat example_panel) G10_FEAT_FRAME_AUTO"
    "\<not> bit (feat example_panel) G10_FEAT_EARLY_EXIT"
    by (simp_all add: model_defs example_defs)
  have v: "mode_vrefresh nt37290_lp_mode = 30" "mode_vrefresh nt37290_mode_120 = 120"
    by (simp_all add: example_defs)
  have e: "warn_log (base example_panel) = []" "dcs_sent (base example_panel) = []"
    "dcs_queue (base example_panel) = []"
    by (simp_all add: model_defs example_defs)
  have A: "\<exists>s'. nt37290_update_panel_feat example_panel (Some nt37290_lp_mode) True =
        Some (True, s') \<and>
      hw_vrefresh s' = 30 \<and>
      warn_log (base s') = [Unsupported_vrefresh_manual 30] \<and>
      dcs_sent (base s') =
        [[[0x2F, 0x00], [0x2F, 0x30], [0x5A, 0x01], [0xF0, 0x55, 0xAA, 0x52, 0x08, 0x00],
          [0x6F, 0x1C], [0x2C], [0x44, 0x00, 0x01]]]"
    using update_panel_feat_unsupported [of True example_panel nt37290_lp_mode] f v e
    by (simp add: cmd2_page0_def) blast
  have B: "\<exists>s'. nt37290_update_panel_feat example_panel (Some nt37290_mode_120) True =
        Some (True, s') \<and>
      warn_log (base s') = [] \<and>
      dcs_sent (base s') = [[[0x2F, 0x00], [0x44, 0x00, 0x00]]]"
    using update_panel_feat_unsupported [of True example_panel nt37290_mode_120] f v e
    by simp blast
  from A B f(1) v show ?thesis by blast
qed

text \<open>
  C8 as stated fails at 120 Hz with FrameAuto clear, a refresh rate other than 60: the
  builder takes the manual high-speed path (line 477), reports nothing and sends only the
  frequency mode and the TE timing, without the early-exit and 0x2C commands.
\<close>

theorem update_panel_feat_120_manual_counterexample:
  "\<not> bit (feat example_panel) G10_FEAT_FRAME_AUTO \<and>
   mode_vrefresh nt37290_mode_120 \<noteq> 60 \<and>
   nt37290_update_panel_feat example_panel (Some nt37290_mode_120) True =
     Some (True, example_panel\<lparr>hw_vrefresh := 120,
       base := example_base\<lparr>warn_log := [],
         dcs_sent := [[[0x2F, 0x00], [0x44, 0x00, 0x00]]]\<rparr>\<rparr>)"
  by (simp add: model_defs example_defs Let_def)

section \<open>Power-off\<close>

text \<open>
  C9, as the code has it. \<^verbatim>\<open>nt37290_disable\<close> resets the committed state to its
  attach-time values: \<^verbatim>\<open>hw_vrefresh\<close> is 60, \<^verbatim>\<open>hw_idle_vrefresh\<close> is 0 and both
  committed feature bits are clear. The desired feature set, \<^verbatim>\<open>delayed_idle\<close> and
  \<^verbatim>\<open>auto_mode_vrefresh\<close> keep the values they had, whatever the common panel layer does
  with the base struct.
\<close>

theorem disable_resets_committed:
  "hw_vrefresh (snd (nt37290_disable f spanel)) = hw_vrefresh (nt37290_panel_probe b) \<and>
   hw_idle_vrefresh (snd (nt37290_disable f spanel)) = hw_idle_vrefresh (nt37290_panel_probe b) \<and>
   hw_vrefresh (snd (nt37290_disable f spanel)) = 60 \<and>
   hw_idle_vrefresh (snd (nt37290_disable f spanel)) = 0 \<and>
   \<not> bit (hw_feat (snd (nt37290_disable f spanel))) G10_FEAT_EARLY_EXIT \<and>
   \<not> bit (hw_feat (snd (nt37290_disable f spanel))) G10_FEAT_FRAME_AUTO \<and>
   bitmap_empty (hw_feat (snd (nt37290_disable f spanel))) G10_FEAT_MAX \<and>
   bitmap_empty (hw_feat (nt37290_panel_probe b)) G10_FEAT_MAX \<and>
   feat (snd (nt37290_disable f spanel)) = feat spanel \<and>
   delayed_idle (snd (nt37290_disable f spanel)) = delayed_idle spanel \<and>
   auto_mode_vrefresh (snd (nt37290_disable f spanel)) = auto_mode_vrefresh spanel"
  by (simp add: nt37290_disable_def nt37290_panel_probe_def Let_def split_beta bitmap_clear_def
      bitmap_empty_def G10_FEAT_EARLY_EXIT_def G10_FEAT_FRAME_AUTO_def G10_FEAT_MAX_def bit_simps
      and_not_and_self)

theorem disable_resets_committed_witness:
  "hw_vrefresh (snd (nt37290_disable (Pair 0) idle_committed_panel)) = 60 \<and>
   hw_idle_vrefresh (snd (nt37290_disable (Pair 0) idle_committed_panel)) = 0 \<and>
   bitmap_empty (hw_feat (snd (nt37290_disable (Pair 0) idle_committed_panel))) G10_FEAT_MAX \<and>
   feat (snd (nt37290_disable (Pair 0) idle_committed_panel)) = feat idle_committed_panel"
  using disable_resets_committed [of "Pair 0" idle_committed_panel example_base]
  by simp

text \<open>
  C9 as stated fails for the desired feature set: a panel that has idling committed (both
  desired features on, as \<^verbatim>\<open>nt37290_change_frequency\<close> leaves the example panel) still
  has both desired features on after \<^verbatim>\<open>nt37290_disable\<close>, while a freshly attached
  panel has them clear.
\<close>

theorem disable_keeps_feat_counterexample:
  "nt37290_change_frequency example_panel nt37290_mode_120 0 = Some (True, idle_committed_panel) \<and>
   bit (feat (snd (nt37290_disable (Pair 0) idle_committed_panel))) G10_FEAT_EARLY_EXIT \<and>
   bit (feat (snd (nt37290_disable (Pair 0) idle_committed_panel))) G10_FEAT_FRAME_AUTO \<and>
   \<not> bit (feat (nt37290_panel_probe example_base)) G10_FEAT_EARLY_EXIT \<and>
   \<not> bit (feat (nt37290_panel_probe example_base)) G10_FEAT_FRAME_AUTO"
  by (simp add: nt37290_disable_def model_defs example_defs Let_def feat_both_on)

end
